theory Spec2Isabelle
  imports Main
begin

section \<open>JavaScript values as the handlers see them\<close>

text \<open>
  The request body and everything read from it are JSON values. A missing property reads
  as \<open>Undefined\<close>. Numbers are modelled as integers: no function below does arithmetic
  on an event field, and only their truthiness and their decimal text are ever used.
  An object lists its properties as key/value pairs; a key is looked up with \<open>map_of\<close>.
\<close>

datatype js =
    Undefined
  | Null
  | Bool bool
  | Num int
  | Str string
  | Arr "js list"
  | Obj "(string \<times> js) list"

datatype err =
    TypeError
  | InvalidSignature
  | InvalidMessageFormat
  | InvalidBounceStructure
  | MalformedMessage js
  | StoreUnavailable
  | CsvError
  | SendError

text \<open>Truthiness, as used by \<open>!x\<close> and \<open>x || d\<close>.\<close>

fun truthy :: "js \<Rightarrow> bool" where
  "truthy Undefined = False"
| "truthy Null = False"
| "truthy (Bool b) = b"
| "truthy (Num n) = (n \<noteq> 0)"
| "truthy (Str s) = (s \<noteq> [])"
| "truthy (Arr xs) = True"
| "truthy (Obj kvs) = True"

fun nullish :: "js \<Rightarrow> bool" where
  "nullish Undefined = True"
| "nullish Null = True"
| "nullish v = False"

text \<open>
  \<open>read_prop v k\<close> is the value of \<open>v.k\<close> for a \<open>v\<close> that is neither null nor undefined.
  The source reads only fixed, non-numeric property names; \<open>length\<close> is the one
  built-in property it reads (of an array or of a string).
\<close>

fun read_prop :: "js \<Rightarrow> string \<Rightarrow> js" where
  "read_prop (Obj kvs) k = (case map_of kvs k of None \<Rightarrow> Undefined | Some v \<Rightarrow> v)"
| "read_prop (Arr xs) k = (if k = ''length'' then Num (int (length xs)) else Undefined)"
| "read_prop (Str s) k = (if k = ''length'' then Num (int (length s)) else Undefined)"
| "read_prop v k = Undefined"

text \<open>\<open>v.k\<close>: reading a property of null or undefined throws a TypeError.\<close>

definition get_prop :: "js \<Rightarrow> string \<Rightarrow> err + js" where
  "get_prop v k = (if nullish v then Inl TypeError else Inr (read_prop v k))"

text \<open>\<open>v?.k\<close>: optional chaining gives undefined instead of throwing.\<close>

definition opt_prop :: "js \<Rightarrow> string \<Rightarrow> js" where
  "opt_prop v k = (if nullish v then Undefined else read_prop v k)"

text \<open>\<open>x || d\<close>.\<close>

definition js_or :: "js \<Rightarrow> js \<Rightarrow> js" where
  "js_or x d = (if truthy x then x else d)"

text \<open>\<open>typeof v === 'object'\<close> holds of objects, arrays and null.\<close>

fun is_object :: "js \<Rightarrow> bool" where
  "is_object Null = True"
| "is_object (Arr xs) = True"
| "is_object (Obj kvs) = True"
| "is_object v = False"

text \<open>Decimal text of a number, and JavaScript's ToString on a JSON value.\<close>

definition digit_char :: "nat \<Rightarrow> char" where
  "digit_char d = char_of (48 + d)"

fun show_nat :: "nat \<Rightarrow> string" where
  "show_nat n = (if n < 10 then [digit_char n] else show_nat (n div 10) @ [digit_char (n mod 10)])"

definition show_int :: "int \<Rightarrow> string" where
  "show_int i = (if i < 0 then CHR ''-'' # show_nat (nat (- i)) else show_nat (nat i))"

fun to_String :: "js \<Rightarrow> string"
  and join_elems :: "js list \<Rightarrow> string" where
  "to_String Undefined = ''undefined''"
| "to_String Null = ''null''"
| "to_String (Bool b) = (if b then ''true'' else ''false'')"
| "to_String (Num n) = show_int n"
| "to_String (Str s) = s"
| "to_String (Arr xs) = join_elems xs"
| "to_String (Obj kvs) = ''[object Object]''"
| "join_elems [] = []"
| "join_elems [x] = (if nullish x then [] else to_String x)"
| "join_elems (x # y # ys) =
     (if nullish x then [] else to_String x) @ CHR '','' # join_elems (y # ys)"

section \<open>Reporter: delivery with bounded retry\<close>

text \<open>
  The retry loop of \<open>sendDailyReport\<close>:
  \<^verbatim>\<open>
  let retries = 3;
  while (retries > 0) {
      try { await transporter.sendMail(mailOptions); return; }
      catch (error) {
          retries--;
          if (retries === 0) throw error;
          await new Promise(resolve => setTimeout(resolve, 5000));
      }
  }
  \<close>
  The transport is external: \<open>tr k\<close> tells whether its \<open>k\<close>-th invocation (counted
  from 0) succeeds. The state records each invocation and each wait, in order.
\<close>

datatype send_event = SendMail | Wait nat

record send_state =
  calls :: nat
  events :: "send_event list"

function retry_loop :: "(nat \<Rightarrow> bool) \<Rightarrow> nat \<Rightarrow> send_state \<Rightarrow> (err + unit) \<times> send_state" where
  "retry_loop tr retries s =
     (if retries > 0 then
        (let s1 = s\<lparr>calls := calls s + 1, events := events s @ [SendMail]\<rparr> in
         if tr (calls s) then (Inr (), s1)
         else
           (let retries' = retries - 1 in
            if retries' = 0 then (Inl SendError, s1)
            else retry_loop tr retries' (s1\<lparr>events := events s1 @ [Wait 5000]\<rparr>)))
      else (Inr (), s))"
  by pat_completeness auto
termination
  by (relation "measure (\<lambda>(tr, retries, s). retries)") auto

definition send_with_retry :: "(nat \<Rightarrow> bool) \<Rightarrow> (err + unit) \<times> send_state" where
  "send_with_retry tr = retry_loop tr 3 \<lparr>calls = 0, events = []\<rparr>"

text \<open>
  The scheduled job wraps the report in \<open>try { ... } catch (error) { console.error(...) }\<close>:
  a failed delivery is logged and the job returns.
\<close>

datatype job_outcome = JobDone | JobLogged err

definition cron_report :: "(nat \<Rightarrow> bool) \<Rightarrow> job_outcome \<times> send_state" where
  "cron_report tr =
     (case send_with_retry tr of
        (Inl e, s) \<Rightarrow> (JobLogged e, s)
      | (Inr u, s) \<Rightarrow> (JobDone, s))"

text \<open>The trace of \<open>k\<close> invocations separated by waits of 5000 ms.\<close>

fun attempts_trace :: "nat \<Rightarrow> send_event list" where
  "attempts_trace 0 = []"
| "attempts_trace (Suc 0) = [SendMail]"
| "attempts_trace (Suc (Suc n)) = SendMail # Wait 5000 # attempts_trace (Suc n)"

section \<open>The record store: a CSV file guarded by a lock file\<close>

text \<open>
  The CSV text is produced by csv-writer and read back by csv-parse, both external
  libraries. The file is modelled as the sequence of its lines, a line being the list of
  its cells (quoting is the libraries' business); \<open>[]\<close> is an empty line.

  The stringifier is configured with nine columns, each with an \<open>id\<close> and a \<open>title\<close>:
  \<^verbatim>\<open>{ id: 'email', title: 'Bounced Email' }, { id: 'timestamp', title: 'Timestamp' }, ...\<close>
\<close>

type_synonym row = "string list"

definition header_ids :: "string list" where
  "header_ids = [''email'', ''timestamp'', ''sourceEmail'', ''sourceIp'', ''bounceType'',
     ''bounceSubType'', ''diagnosticCode'', ''reportingMTA'', ''feedbackId'']"

definition header_titles :: row where
  "header_titles = [''Bounced Email'', ''Timestamp'', ''Source Email'', ''Source IP'',
     ''Bounce Type'', ''Bounce Sub-Type'', ''Diagnostic Code'', ''Reporting MTA'', ''Feedback ID'']"

text \<open>
  csv-writer: a cell is empty for an undefined, null or empty value and \<open>String(value)\<close>
  otherwise; a record is written by reading \<open>record[id]\<close> for each column id, in order;
  \<open>stringifyRecords\<close> joins the lines with the record delimiter and appends one more, so
  that no record at all gives one empty line; \<open>getHeaderString\<close> is the line of titles.
\<close>

definition field_stringify :: "js \<Rightarrow> string" where
  "field_stringify v = (if nullish v \<or> v = Str [] then [] else to_String v)"

definition record_row :: "js \<Rightarrow> row" where
  "record_row r = map (\<lambda>i. field_stringify (read_prop r i)) header_ids"

definition stringifyRecords :: "js list \<Rightarrow> row list" where
  "stringifyRecords recs = (if recs = [] then [[]] else map record_row recs)"

definition getHeaderString :: "row list" where
  "getHeaderString = [header_titles]"

text \<open>
  The file system as far as \<open>appendToCsv\<close> touches it: the CSV file, whether the lock
  file exists, and the operations attempted so far. Each of the four file operations of
  one call may fail, and \<open>io\<close> says which: creating the lock file, appending, removing
  the lock file in the \<open>try\<close> block, removing it in the \<open>catch\<close> block. A failed
  operation leaves the files as they were. Removing a lock file that does not exist
  always fails.
\<close>

datatype fs_op = WriteLock | AppendCsv | UnlinkLock

record fs_state =
  csv_file :: "row list"
  lock_file :: bool
  fs_log :: "fs_op list"

record io =
  lock_write_ok :: bool
  append_ok :: bool
  unlink_try_ok :: bool
  unlink_catch_ok :: bool

definition log_op :: "fs_op \<Rightarrow> fs_state \<Rightarrow> fs_state" where
  "log_op x s = s\<lparr>fs_log := fs_log s @ [x]\<rparr>"

definition unlink_lock :: "bool \<Rightarrow> fs_state \<Rightarrow> (err + unit) \<times> fs_state" where
  "unlink_lock ok s =
     (if lock_file s \<and> ok then (Inr (), (log_op UnlinkLock s)\<lparr>lock_file := False\<rparr>)
      else (Inl StoreUnavailable, log_op UnlinkLock s))"

text \<open>
  The body of the \<open>try\<close> block of \<open>appendToCsv\<close>:
  \<^verbatim>\<open>
  await fs.writeFile(lockFile, '');
  const csvString = csvStringifier.stringifyRecords(data);
  await fs.appendFile(csvFilePath, csvString);
  await fs.unlink(lockFile);
  \<close>
\<close>

definition append_try :: "io \<Rightarrow> js list \<Rightarrow> fs_state \<Rightarrow> (err + unit) \<times> fs_state" where
  "append_try f data s =
     (let s1 = log_op WriteLock s in
      if \<not> lock_write_ok f then (Inl StoreUnavailable, s1)
      else
        (let s2 = log_op AppendCsv (s1\<lparr>lock_file := True\<rparr>) in
         if \<not> append_ok f then (Inl StoreUnavailable, s2)
         else unlink_lock (unlink_try_ok f)
                (s2\<lparr>csv_file := csv_file s2 @ stringifyRecords data\<rparr>)))"

text \<open>
  \<open>appendToCsv\<close>: on any error of the body, the handler tries to remove the lock file,
  logs a failure to do so, and throws the error of the body again:
  \<^verbatim>\<open>
  } catch (error) {
      try { await fs.unlink(lockFile); }
      catch (unlinkError) { console.error('Error releasing lock:', unlinkError); }
      throw error;
  }
  \<close>
\<close>

definition appendToCsv :: "io \<Rightarrow> js list \<Rightarrow> fs_state \<Rightarrow> (err + unit) \<times> fs_state" where
  "appendToCsv f data s =
     (case append_try f data s of
        (Inr u, s') \<Rightarrow> (Inr (), s')
      | (Inl e, s') \<Rightarrow> (Inl e, snd (unlink_lock (unlink_catch_ok f) s')))"

section \<open>The notification endpoint\<close>

definition ends_with :: "string \<Rightarrow> string \<Rightarrow> bool" where
  "ends_with suffix s =
     (length suffix \<le> length s \<and> drop (length s - length suffix) s = suffix)"

text \<open>
  \<open>verifySignature\<close>. \<open>new URL(x).hostname\<close> is the parameter \<open>H\<close> (\<open>None\<close> when the
  constructor throws). Every exception inside is caught and gives \<open>false\<close>; after the
  host check both the development and the production branch return \<open>true\<close>.
\<close>

definition verifySignature :: "(string \<Rightarrow> string option) \<Rightarrow> js \<Rightarrow> bool" where
  "verifySignature H message =
     (if nullish message then False
      else if \<not> truthy (read_prop message ''SigningCertURL'')
            \<or> \<not> truthy (read_prop message ''Signature'')
            \<or> \<not> truthy (read_prop message ''SignatureVersion'') then False
      else
        (case H (to_String (read_prop message ''SigningCertURL'')) of
           None \<Rightarrow> False
         | Some hostname \<Rightarrow> ends_with ''.amazonaws.com'' hostname))"

text \<open>
  The decoding of the \<open>Message\<close> field in \<open>processSNSMessage\<close>; \<open>JSON.parse\<close> is the
  parameter \<open>P\<close>, applied to the text of its argument (\<open>None\<close> is a SyntaxError):
  \<^verbatim>\<open>
  if (typeof message.Message === 'object') { messageContent = message.Message; }
  else {
      try { messageContent = JSON.parse(message.Message); }
      catch (parseError) { ...; throw new Error('Invalid Message format'); }
  }
  \<close>
\<close>

definition decode_message :: "(string \<Rightarrow> js option) \<Rightarrow> js \<Rightarrow> err + js" where
  "decode_message P msg =
     (if is_object msg then Inr msg
      else (case P (to_String msg) of
              None \<Rightarrow> Inl InvalidMessageFormat
            | Some c \<Rightarrow> Inr c))"

text \<open>\<open>processSNSMessage\<close>; the result \<open>Null\<close> is its \<open>return null\<close>.\<close>

definition processSNSMessage ::
  "(string \<Rightarrow> js option) \<Rightarrow> (string \<Rightarrow> string option) \<Rightarrow> js \<Rightarrow> err + js" where
  "processSNSMessage P H message =
     (if \<not> verifySignature H message then Inl InvalidSignature
      else
        (case get_prop message ''Message'' of
           Inl e \<Rightarrow> Inl e
         | Inr msg \<Rightarrow>
             (case decode_message P msg of
                Inl e \<Rightarrow> Inl e
              | Inr content \<Rightarrow>
                  (case get_prop content ''notificationType'' of
                     Inl e \<Rightarrow> Inl e
                   | Inr kind \<Rightarrow> if kind \<noteq> Str ''Bounce'' then Inr Null else Inr content))))"

text \<open>
  One record per recipient:
  \<^verbatim>\<open>
  bounce.bouncedRecipients.map(recipient => ({
      email: recipient.emailAddress,
      timestamp: bounce.timestamp,
      sourceEmail: mail.source,
      sourceIp: mail.sourceIp,
      bounceType: bounce.bounceType || 'Unknown',
      bounceSubType: bounce.bounceSubType || 'Unknown',
      diagnosticCode: recipient.diagnosticCode || 'Not provided',
      reportingMTA: bounce.reportingMTA || 'Not provided',
      feedbackId: bounce.feedbackId || 'Not provided'
  }))
  \<close>
  Reading a property of a null recipient throws; every such read throws the same TypeError.
\<close>

definition bounce_record :: "js \<Rightarrow> js \<Rightarrow> js \<Rightarrow> err + js" where
  "bounce_record bounce mail recipient =
     (if nullish recipient \<or> nullish bounce \<or> nullish mail then Inl TypeError
      else Inr (Obj
        [(''email'', read_prop recipient ''emailAddress''),
         (''timestamp'', read_prop bounce ''timestamp''),
         (''sourceEmail'', read_prop mail ''source''),
         (''sourceIp'', read_prop mail ''sourceIp''),
         (''bounceType'', js_or (read_prop bounce ''bounceType'') (Str ''Unknown'')),
         (''bounceSubType'', js_or (read_prop bounce ''bounceSubType'') (Str ''Unknown'')),
         (''diagnosticCode'', js_or (read_prop recipient ''diagnosticCode'') (Str ''Not provided'')),
         (''reportingMTA'', js_or (read_prop bounce ''reportingMTA'') (Str ''Not provided'')),
         (''feedbackId'', js_or (read_prop bounce ''feedbackId'') (Str ''Not provided''))]))"

fun map_records :: "js \<Rightarrow> js \<Rightarrow> js list \<Rightarrow> err + js list" where
  "map_records bounce mail [] = Inr []"
| "map_records bounce mail (r # rs) =
     (case bounce_record bounce mail r of
        Inl e \<Rightarrow> Inl e
      | Inr x \<Rightarrow>
          (case map_records bounce mail rs of
             Inl e \<Rightarrow> Inl e
           | Inr xs \<Rightarrow> Inr (x # xs)))"

text \<open>Only an array has \<open>map\<close>; calling it on any other value throws a TypeError.\<close>

definition bounce_records :: "js \<Rightarrow> js \<Rightarrow> err + js list" where
  "bounce_records bounce mail =
     (case get_prop bounce ''bouncedRecipients'' of
        Inl e \<Rightarrow> Inl e
      | Inr (Arr rs) \<Rightarrow> map_records bounce mail rs
      | Inr v \<Rightarrow> Inl TypeError)"

text \<open>
  The body of the \<open>try\<close> block of \<open>app.post('/sns')\<close>:
  \<^verbatim>\<open>
  const messageContent = await processSNSMessage(req.body);
  if (!messageContent) {
      return res.status(200).json({ message: 'Non-bounce notification ignored' });
  }
  const { bounce, mail } = messageContent;
  if (!bounce?.bouncedRecipients?.length || !mail) {
      throw new Error('Invalid bounce data structure');
  }
  const bounceRecords = bounce.bouncedRecipients.map(...);
  await appendToCsv(bounceRecords);
  res.status(200).json({ message: 'Bounce processed successfully' });
  \<close>
\<close>

datatype outcome = Ignored | Processed

definition sns_body ::
  "(string \<Rightarrow> js option) \<Rightarrow> (string \<Rightarrow> string option) \<Rightarrow> io \<Rightarrow> js \<Rightarrow> fs_state
     \<Rightarrow> (err + outcome) \<times> fs_state" where
  "sns_body P H f body s =
     (case processSNSMessage P H body of
        Inl e \<Rightarrow> (Inl e, s)
      | Inr messageContent \<Rightarrow>
          if \<not> truthy messageContent then (Inr Ignored, s)
          else
            (let bounce = read_prop messageContent ''bounce'';
                 mail = read_prop messageContent ''mail'' in
             if \<not> truthy (opt_prop (opt_prop bounce ''bouncedRecipients'') ''length'')
                \<or> \<not> truthy mail
             then (Inl InvalidBounceStructure, s)
             else
               (case bounce_records bounce mail of
                  Inl e \<Rightarrow> (Inl e, s)
                | Inr bounceRecords \<Rightarrow>
                    (case appendToCsv f bounceRecords s of
                       (Inl e, s') \<Rightarrow> (Inl e, s')
                     | (Inr u, s') \<Rightarrow> (Inr Processed, s')))))"

text \<open>The handler: the \<open>catch\<close> answers every error with status 500.\<close>

record response =
  status :: nat
  message :: string

definition sns_handler ::
  "(string \<Rightarrow> js option) \<Rightarrow> (string \<Rightarrow> string option) \<Rightarrow> io \<Rightarrow> js \<Rightarrow> fs_state
     \<Rightarrow> response \<times> fs_state" where
  "sns_handler P H f body s =
     (case sns_body P H f body s of
        (Inl e, s') \<Rightarrow> (\<lparr>status = 500, message = ''Internal server error''\<rparr>, s')
      | (Inr Ignored, s') \<Rightarrow> (\<lparr>status = 200, message = ''Non-bounce notification ignored''\<rparr>, s')
      | (Inr Processed, s') \<Rightarrow> (\<lparr>status = 200, message = ''Bounce processed successfully''\<rparr>, s'))"

text \<open>
  The first version of the handler (\<open>ses-bounces-handler.js\<close>) takes the request body
  itself as the notification and writes one line, for the first recipient:
  \<^verbatim>\<open>
  if (message.notificationType === 'Bounce') {
      const bounce = message.bounce;
      const mail = message.mail;
      const bouncedEmail = bounce.bouncedRecipients[0].emailAddress;
      const timestamp = bounce.timestamp;
      const sourceEmail = mail.source;
      const sourceIp = mail.sourceIp;
      const csvData = `${bouncedEmail},${timestamp},${sourceEmail},${sourceIp}\n`;
      fs.appendFileSync(csvFilePath, csvData);
  }
  \<close>
  The file is its text here; \<open>v[0]\<close> of an array is its first element, if any.
\<close>

fun index0 :: "js \<Rightarrow> js" where
  "index0 (Arr xs) = (case xs of [] \<Rightarrow> Undefined | x # rest \<Rightarrow> x)"
| "index0 (Str s) = (case s of [] \<Rightarrow> Undefined | c # rest \<Rightarrow> Str [c])"
| "index0 (Obj kvs) = read_prop (Obj kvs) ''0''"
| "index0 v = Undefined"

definition sns_body_v1 :: "js \<Rightarrow> string \<Rightarrow> err + string" where
  "sns_body_v1 notification file =
     (case get_prop notification ''notificationType'' of
        Inl e \<Rightarrow> Inl e
      | Inr kind \<Rightarrow>
          if kind \<noteq> Str ''Bounce'' then Inr file
          else
            (let bounce = read_prop notification ''bounce''; mail = read_prop notification ''mail'' in
             if nullish bounce \<or> nullish (read_prop bounce ''bouncedRecipients'')
                \<or> nullish (index0 (read_prop bounce ''bouncedRecipients'')) \<or> nullish mail
             then Inl TypeError
             else Inr (file
                       @ to_String (read_prop (index0 (read_prop bounce ''bouncedRecipients''))
                                      ''emailAddress'')
                       @ '','' @ to_String (read_prop bounce ''timestamp'')
                       @ '','' @ to_String (read_prop mail ''source'')
                       @ '','' @ to_String (read_prop mail ''sourceIp'') @ [CHR 0x0A])))"

section \<open>Retention pruning\<close>

text \<open>
  \<open>new Date(v)\<close> as an instant in milliseconds, \<open>None\<close> for an Invalid Date. Parsing
  the text of a date is the parameter \<open>D\<close>. A comparison with an Invalid Date is false.
\<close>

definition new_Date :: "(string \<Rightarrow> int option) \<Rightarrow> js \<Rightarrow> int option" where
  "new_Date D v =
     (case v of
        Undefined \<Rightarrow> None
      | Null \<Rightarrow> Some 0
      | Bool b \<Rightarrow> Some (if b then 1 else 0)
      | Num n \<Rightarrow> Some n
      | Str s \<Rightarrow> D s
      | Arr xs \<Rightarrow> D (to_String v)
      | Obj kvs \<Rightarrow> D (to_String v))"

definition date_after :: "int option \<Rightarrow> int \<Rightarrow> bool" where
  "date_after d cutoff = (case d of None \<Rightarrow> False | Some t \<Rightarrow> cutoff < t)"

text \<open>
  csv-parse with \<open>columns: true, skip_empty_lines: true\<close>: empty lines are skipped, the
  first line names the columns, and every further line becomes an object keyed by these
  names (the source reads \<open>record['Timestamp']\<close>). A line whose number of cells differs
  from the header's is an error. When a name occurs twice the later column wins.
\<close>

definition csv_parse :: "row list \<Rightarrow> err + js list" where
  "csv_parse lines =
     (case filter (\<lambda>l. l \<noteq> []) lines of
        [] \<Rightarrow> Inr []
      | h # rows \<Rightarrow>
          if list_all (\<lambda>r. length r = length h) rows
          then Inr (map (\<lambda>r. Obj (rev (zip h (map Str r)))) rows)
          else Inl CsvError)"

text \<open>
  The CSV part of \<open>cleanupOldData\<close>, for a given cutoff instant (the pruning of the
  backup directories that precedes it is left out, and reading and writing the file are
  taken to succeed):
  \<^verbatim>\<open>
  const records = await csv.parse(csvContent, { columns: true, skip_empty_lines: true });
  const recentRecords = records.filter(record => {
      const recordDate = new Date(record['Timestamp']);
      return recordDate > cutoffDate;
  });
  const csvString = csvStringifier.stringifyRecords(recentRecords);
  await fs.writeFile(csvFilePath, csvStringifier.getHeaderString() + csvString);
  \<close>
\<close>

definition recentRecords :: "(string \<Rightarrow> int option) \<Rightarrow> int \<Rightarrow> js list \<Rightarrow> js list" where
  "recentRecords D cutoff records =
     filter (\<lambda>record. date_after (new_Date D (read_prop record ''Timestamp'')) cutoff) records"

definition cleanupOldData :: "(string \<Rightarrow> int option) \<Rightarrow> int \<Rightarrow> row list \<Rightarrow> err + row list" where
  "cleanupOldData D cutoff csvContent =
     (case csv_parse csvContent of
        Inl e \<Rightarrow> Inl e
      | Inr records \<Rightarrow>
          Inr (getHeaderString @ stringifyRecords (recentRecords D cutoff records)))"

text \<open>
  The earlier, line-based cleanup of the scheduled job works on the text of the file:
  \<^verbatim>\<open>
  const allLines = fs.readFileSync(csvFilePath, 'utf8').split('\n');
  const retainedLines = allLines.filter((line, index) => {
      if (index === 0) return true; // Preserve header
      const timestamp = line.split(',')[1].replace(/"/g, '');
      if (!timestamp) return false; // Handle potential empty lines
      const timestampDate = new Date(timestamp);
      return timestampDate > sevenDaysAgo;
  });
  fs.writeFileSync(csvFilePath, retainedLines.join('\n'));
  \<close>
  A line without a comma has no second field, and \<open>undefined.replace\<close> throws.
\<close>

fun split_on :: "char \<Rightarrow> string \<Rightarrow> string list" where
  "split_on c [] = [[]]"
| "split_on c (x # xs) =
     (if x = c then [] # split_on c xs
      else (case split_on c xs of
              [] \<Rightarrow> [[x]]
            | w # ws \<Rightarrow> (x # w) # ws))"

fun join_with :: "char \<Rightarrow> string list \<Rightarrow> string" where
  "join_with c [] = []"
| "join_with c [l] = l"
| "join_with c (l # m # ls) = l @ c # join_with c (m # ls)"

definition keep_line :: "(string \<Rightarrow> int option) \<Rightarrow> int \<Rightarrow> nat \<Rightarrow> string \<Rightarrow> err + bool" where
  "keep_line D cutoff index line =
     (if index = 0 then Inr True
      else
        (case split_on CHR '','' line of
           f0 # f1 # fs \<Rightarrow>
             (let timestamp = filter (\<lambda>c. c \<noteq> CHR 0x22) f1 in
              if timestamp = [] then Inr False
              else Inr (date_after (D timestamp) cutoff))
         | _ \<Rightarrow> Inl TypeError))"

fun filter_lines :: "(string \<Rightarrow> int option) \<Rightarrow> int \<Rightarrow> nat \<Rightarrow> string list \<Rightarrow> err + string list" where
  "filter_lines D cutoff index [] = Inr []"
| "filter_lines D cutoff index (l # ls) =
     (case keep_line D cutoff index l of
        Inl e \<Rightarrow> Inl e
      | Inr b \<Rightarrow>
          (case filter_lines D cutoff (Suc index) ls of
             Inl e \<Rightarrow> Inl e
           | Inr ks \<Rightarrow> Inr (if b then l # ks else ks)))"

definition cleanup_lines :: "(string \<Rightarrow> int option) \<Rightarrow> int \<Rightarrow> string \<Rightarrow> err + string" where
  "cleanup_lines D cutoff text =
     (case filter_lines D cutoff 0 (split_on CHR 0x0A text) of
        Inl e \<Rightarrow> Inl e
      | Inr retainedLines \<Rightarrow> Inr (join_with CHR 0x0A retainedLines))"

text \<open>
  Names for what the line-based cleanup looks at: whether a line has a second field, the
  second field without its quotes, and whether that timestamp is a valid instant after
  the cutoff.
\<close>

definition has_timestamp_field :: "string \<Rightarrow> bool" where
  "has_timestamp_field line = (2 \<le> length (split_on CHR '','' line))"

definition line_timestamp :: "string \<Rightarrow> string" where
  "line_timestamp line = filter (\<lambda>c. c \<noteq> CHR 0x22) (split_on CHR '','' line ! 1)"

definition recent_line :: "(string \<Rightarrow> int option) \<Rightarrow> int \<Rightarrow> string \<Rightarrow> bool" where
  "recent_line D cutoff line =
     (line_timestamp line \<noteq> [] \<and> date_after (D (line_timestamp line)) cutoff)"

text \<open>
  The whole scheduled job of that iteration. Before the cleanup it selects the lines of
  the last 24 hours for the report, and it returns when there are none:
  \<^verbatim>\<open>
  const filteredLines = lines.filter((line, index) => {
      if (index === 0) return true; // Keep header
      if (line.trim() === '') return false; // Skip empty lines
      const timestamp = line.split(',')[1].replace(/"/g, '');
      const lineDate = new Date(timestamp);
      return lineDate > twentyFourHoursAgo;
  });
  if (filteredLines.length <= 1) {
      console.log('No bounce data in the last 24 hours. Skipping email.');
      return;
  }
  \<close>
  The report is sent without waiting and does not touch the file; copying the file to a
  backup is taken to succeed. The two instants are the job's clock \<open>now\<close> less 24 hours
  and less 7 days (the source subtracts in local time; the two agree when no clock change
  falls in between). \<open>trim\<close> is modelled for the ASCII white space. An exception
  leaves the callback before \<open>writeFileSync\<close>, so the file stays as it was.
\<close>

definition is_space :: "char \<Rightarrow> bool" where
  "is_space c = (c = CHR '' '' \<or> c = CHR 0x09 \<or> c = CHR 0x0A \<or> c = CHR 0x0B \<or> c = CHR 0x0C
                 \<or> c = CHR 0x0D)"

definition keep_report_line :: "(string \<Rightarrow> int option) \<Rightarrow> int \<Rightarrow> nat \<Rightarrow> string \<Rightarrow> err + bool" where
  "keep_report_line D since index line =
     (if index = 0 then Inr True
      else if list_all is_space line then Inr False
      else
        (case split_on CHR '','' line of
           f0 # f1 # fs \<Rightarrow> Inr (date_after (D (filter (\<lambda>c. c \<noteq> CHR 0x22) f1)) since)
         | _ \<Rightarrow> Inl TypeError))"

fun filter_report_lines ::
  "(string \<Rightarrow> int option) \<Rightarrow> int \<Rightarrow> nat \<Rightarrow> string list \<Rightarrow> err + string list" where
  "filter_report_lines D since index [] = Inr []"
| "filter_report_lines D since index (l # ls) =
     (case keep_report_line D since index l of
        Inl e \<Rightarrow> Inl e
      | Inr b \<Rightarrow>
          (case filter_report_lines D since (Suc index) ls of
             Inl e \<Rightarrow> Inl e
           | Inr ks \<Rightarrow> Inr (if b then l # ks else ks)))"

datatype cleanup_outcome = ReturnedEarly | CleanedUp | Thrown err

definition cron_job_lines ::
  "(string \<Rightarrow> int option) \<Rightarrow> int \<Rightarrow> string \<Rightarrow> cleanup_outcome \<times> string" where
  "cron_job_lines D now content =
     (case filter_report_lines D (now - 86400000) 0 (split_on CHR 0x0A content) of
        Inl e \<Rightarrow> (Thrown e, content)
      | Inr filteredLines \<Rightarrow>
          if length filteredLines \<le> 1 then (ReturnedEarly, content)
          else
            (case cleanup_lines D (now - 604800000) content of
               Inl e \<Rightarrow> (Thrown e, content)
             | Inr retained \<Rightarrow> (CleanedUp, retained)))"

text \<open>
  The file as that iteration creates it and the line its handler appends per recipient:
  \<^verbatim>\<open>
  fs.writeFileSync(csvFilePath, 'Bounced Email,Timestamp,Source Email,Source IP\n');
  const csvData = `"${bouncedEmail}","${timestamp}","${sourceEmail}","${sourceIp}"\n`;
  fs.appendFileSync(csvFilePath, csvData);
  \<close>
\<close>

definition initial_file :: string where
  "initial_file = ''Bounced Email,Timestamp,Source Email,Source IP\<newline>''"

definition bounce_line :: "js \<Rightarrow> js \<Rightarrow> js \<Rightarrow> js \<Rightarrow> string" where
  \<open>bounce_line bouncedEmail timestamp sourceEmail sourceIp =
     ''"'' @ to_String bouncedEmail @ ''","'' @ to_String timestamp @ ''","''
       @ to_String sourceEmail @ ''","'' @ to_String sourceIp @ ''"\<newline>''\<close>

text \<open>
  The first version of the job (\<open>ses-bounces-handler.js\<close>) filters every line alike;
  \<open>new Date(undefined)\<close> is an Invalid Date:
  \<^verbatim>\<open>
  const filteredLines = lines.filter(line => {
      const timestamp = line.split(',')[1];
      const timestampDate = new Date(timestamp);
      return timestampDate > thirtyDaysAgo;
  });
  fs.writeFileSync(csvFilePath, filteredLines.join('\n'));
  \<close>
\<close>

definition keep_line_v1 :: "(string \<Rightarrow> int option) \<Rightarrow> int \<Rightarrow> string \<Rightarrow> bool" where
  "keep_line_v1 D cutoff line =
     (case split_on CHR '','' line of
        f0 # f1 # fs \<Rightarrow> date_after (D f1) cutoff
      | _ \<Rightarrow> False)"

definition cleanup_lines_v1 :: "(string \<Rightarrow> int option) \<Rightarrow> int \<Rightarrow> string \<Rightarrow> string" where
  "cleanup_lines_v1 D cutoff text =
     join_with CHR 0x0A (filter (keep_line_v1 D cutoff) (split_on CHR 0x0A text))"

section \<open>Decoding the Message field by several strategies\<close>

text \<open>
  The handler of the text/JSON iteration:
  \<^verbatim>\<open>
  try {
      messageContent = JSON.parse(snsMessage.Message);
  } catch (directParseError) {
      try {
          messageContent = JSON.parse(snsMessage.Message.replace(/\\"/g, '"').replace(/^"|"$/g, ''));
      } catch (escapedParseError) {
          try {
              messageContent = JSON.parse(JSON.parse(snsMessage.Message));
          } catch (nestedParseError) {
              ...
              return res.status(400).json({ error: 'Unable to parse Message content',
                                            details: snsMessage.Message });
          }
      }
  }
  \<close>
  \<open>JSON.parse\<close> works on the text of its argument. Only a string has \<open>replace\<close>; on any
  other value the second attempt throws, which its \<open>catch\<close> takes like a parse error.
\<close>

fun unescape_quotes :: "string \<Rightarrow> string" where
  "unescape_quotes (a # b # cs) =
     (if a = CHR 0x5C \<and> b = CHR 0x22 then CHR 0x22 # unescape_quotes cs
      else a # unescape_quotes (b # cs))"
| "unescape_quotes cs = cs"

definition strip_quotes :: "string \<Rightarrow> string" where
  "strip_quotes s =
     (let t = (if s \<noteq> [] \<and> hd s = CHR 0x22 then tl s else s) in
      if t \<noteq> [] \<and> last t = CHR 0x22 then butlast t else t)"

definition parse_once :: "(string \<Rightarrow> js option) \<Rightarrow> js \<Rightarrow> js option" where
  "parse_once P msg = P (to_String msg)"

definition parse_unescaped :: "(string \<Rightarrow> js option) \<Rightarrow> js \<Rightarrow> js option" where
  "parse_unescaped P msg =
     (case msg of Str s \<Rightarrow> P (strip_quotes (unescape_quotes s)) | _ \<Rightarrow> None)"

definition parse_twice :: "(string \<Rightarrow> js option) \<Rightarrow> js \<Rightarrow> js option" where
  "parse_twice P msg = (case P (to_String msg) of None \<Rightarrow> None | Some v \<Rightarrow> P (to_String v))"

definition parse_strategies :: "(string \<Rightarrow> js option) \<Rightarrow> js \<Rightarrow> err + js" where
  "parse_strategies P msg =
     (case parse_once P msg of
        Some c \<Rightarrow> Inr c
      | None \<Rightarrow>
          (case parse_unescaped P msg of
             Some c \<Rightarrow> Inr c
           | None \<Rightarrow>
               (case parse_twice P msg of
                  Some c \<Rightarrow> Inr c
                | None \<Rightarrow> Inl (MalformedMessage msg))))"

text \<open>
  The decoder as the specification words it: an ordered list of strategies, the first
  success wins, and when all fail the error carries the raw Message. The four strategies
  of the specification are (a) take an already structured object, (b) parse once,
  (c) strip one layer of escaping and quotes and parse, (d) parse twice.
\<close>

definition take_object :: "js \<Rightarrow> js option" where
  "take_object msg = (if is_object msg then Some msg else None)"

fun first_success :: "(js \<Rightarrow> js option) list \<Rightarrow> js \<Rightarrow> js option" where
  "first_success [] msg = None"
| "first_success (g # gs) msg = (case g msg of Some c \<Rightarrow> Some c | None \<Rightarrow> first_success gs msg)"

definition spec_decode :: "(string \<Rightarrow> js option) \<Rightarrow> js \<Rightarrow> err + js" where
  "spec_decode P msg =
     (case first_success [take_object, parse_once P, parse_unescaped P, parse_twice P] msg of
        Some c \<Rightarrow> Inr c
      | None \<Rightarrow> Inl (MalformedMessage msg))"

section \<open>Concrete stand-ins for the JavaScript built-ins\<close>

text \<open>
  The functions above take \<open>JSON.parse\<close>, \<open>new URL(...).hostname\<close> and the parsing of
  dates as parameters, and the general theorems hold for every choice of them. The
  examples are evaluated with the following concrete functions, which cover the fragment
  of each built-in that the examples use.

  \<open>json_parse\<close> is a recursive-descent parser for JSON text with integer numbers and
  the one-letter string escapes; a number with a fraction or an exponent and a
  \<open>\u\<close> escape are outside the fragment. The fuel bounds the recursion by the length of
  the text.
\<close>

definition is_ws :: "char \<Rightarrow> bool" where
  "is_ws c = (c = CHR '' '' \<or> c = CHR 0x09 \<or> c = CHR 0x0A \<or> c = CHR 0x0D)"

definition skip_ws :: "string \<Rightarrow> string" where
  "skip_ws cs = dropWhile is_ws cs"

definition is_digit :: "char \<Rightarrow> bool" where
  "is_digit c = (48 \<le> (of_char c :: nat) \<and> (of_char c :: nat) \<le> 57)"

definition digit_of :: "char \<Rightarrow> nat" where
  "digit_of c = of_char c - 48"

definition digits_value :: "string \<Rightarrow> nat" where
  "digits_value ds = foldl (\<lambda>n c. 10 * n + digit_of c) 0 ds"

definition match_prefix :: "string \<Rightarrow> string \<Rightarrow> string option" where
  "match_prefix p cs = (if take (length p) cs = p then Some (drop (length p) cs) else None)"

definition unescape_char :: "char \<Rightarrow> char option" where
  "unescape_char e =
     (if e = CHR 0x22 \<or> e = CHR 0x5C \<or> e = CHR ''/'' then Some e
      else if e = CHR ''b'' then Some (CHR 0x08)
      else if e = CHR ''f'' then Some (CHR 0x0C)
      else if e = CHR ''n'' then Some (CHR 0x0A)
      else if e = CHR ''r'' then Some (CHR 0x0D)
      else if e = CHR ''t'' then Some (CHR 0x09)
      else None)"

fun parse_string_body :: "string \<Rightarrow> (string \<times> string) option" where
  "parse_string_body [] = None"
| "parse_string_body [c] = (if c = CHR 0x22 then Some ([], []) else None)"
| "parse_string_body (c # e # cs) =
     (if c = CHR 0x22 then Some ([], e # cs)
      else if c = CHR 0x5C then
        (case unescape_char e of
           None \<Rightarrow> None
         | Some x \<Rightarrow>
             (case parse_string_body cs of
                None \<Rightarrow> None
              | Some (str, rest) \<Rightarrow> Some (x # str, rest)))
      else if (of_char c :: nat) < 32 then None
      else
        (case parse_string_body (e # cs) of
           None \<Rightarrow> None
         | Some (str, rest) \<Rightarrow> Some (c # str, rest)))"

definition parse_number :: "string \<Rightarrow> (js \<times> string) option" where
  "parse_number cs =
     (let neg = (cs \<noteq> [] \<and> hd cs = CHR ''-'');
          body = (if neg then tl cs else cs);
          ds = takeWhile is_digit body;
          rest = dropWhile is_digit body in
      if ds = [] \<or> (hd ds = CHR ''0'' \<and> length ds > 1) then None
      else if rest \<noteq> [] \<and> (hd rest = CHR ''.'' \<or> hd rest = CHR ''e'' \<or> hd rest = CHR ''E'') then None
      else Some (Num (if neg then - int (digits_value ds) else int (digits_value ds)), rest))"

fun parse_value :: "nat \<Rightarrow> string \<Rightarrow> (js \<times> string) option"
  and parse_elements :: "nat \<Rightarrow> string \<Rightarrow> (js list \<times> string) option"
  and parse_members :: "nat \<Rightarrow> string \<Rightarrow> ((string \<times> js) list \<times> string) option" where
  "parse_value 0 cs = None"
| "parse_value (Suc n) cs =
     (case skip_ws cs of
        [] \<Rightarrow> None
      | c # r \<Rightarrow>
          if c = CHR 0x22 then
            (case parse_string_body r of None \<Rightarrow> None | Some (str, rest) \<Rightarrow> Some (Str str, rest))
          else if c = CHR ''['' then
            (case skip_ws r of
               [] \<Rightarrow> None
             | d # r' \<Rightarrow>
                 if d = CHR '']'' then Some (Arr [], r')
                 else (case parse_elements n r of
                         None \<Rightarrow> None
                       | Some (vs, rest) \<Rightarrow> Some (Arr vs, rest)))
          else if c = CHR ''{'' then
            (case skip_ws r of
               [] \<Rightarrow> None
             | d # r' \<Rightarrow>
                 if d = CHR ''}'' then Some (Obj [], r')
                 else (case parse_members n r of
                         None \<Rightarrow> None
                       | Some (kvs, rest) \<Rightarrow> Some (Obj kvs, rest)))
          else
            (case match_prefix ''null'' (c # r) of
               Some rest \<Rightarrow> Some (Null, rest)
             | None \<Rightarrow>
                 (case match_prefix ''true'' (c # r) of
                    Some rest \<Rightarrow> Some (Bool True, rest)
                  | None \<Rightarrow>
                      (case match_prefix ''false'' (c # r) of
                         Some rest \<Rightarrow> Some (Bool False, rest)
                       | None \<Rightarrow> parse_number (c # r)))))"
| "parse_elements 0 cs = None"
| "parse_elements (Suc n) cs =
     (case parse_value n cs of
        None \<Rightarrow> None
      | Some (v, r) \<Rightarrow>
          (case skip_ws r of
             [] \<Rightarrow> None
           | c # r' \<Rightarrow>
               if c = CHR '']'' then Some ([v], r')
               else if c = CHR '','' then
                 (case parse_elements n r' of
                    None \<Rightarrow> None
                  | Some (vs, rest) \<Rightarrow> Some (v # vs, rest))
               else None))"
| "parse_members 0 cs = None"
| "parse_members (Suc n) cs =
     (case skip_ws cs of
        [] \<Rightarrow> None
      | q # r \<Rightarrow>
          if q \<noteq> CHR 0x22 then None
          else
            (case parse_string_body r of
               None \<Rightarrow> None
             | Some (k, r1) \<Rightarrow>
                 (case skip_ws r1 of
                    [] \<Rightarrow> None
                  | colon # r2 \<Rightarrow>
                      if colon \<noteq> CHR '':'' then None
                      else
                        (case parse_value n r2 of
                           None \<Rightarrow> None
                         | Some (v, r3) \<Rightarrow>
                             (case skip_ws r3 of
                                [] \<Rightarrow> None
                              | c # r4 \<Rightarrow>
                                  if c = CHR ''}'' then Some ([(k, v)], r4)
                                  else if c = CHR '','' then
                                    (case parse_members n r4 of
                                       None \<Rightarrow> None
                                     | Some (kvs, rest) \<Rightarrow>
                                         Some (if map_of kvs k = None then (k, v) # kvs else kvs, rest))
                                  else None)))))"

definition json_parse :: "string \<Rightarrow> js option" where
  "json_parse text =
     (case parse_value (2 * length text + 2) text of
        None \<Rightarrow> None
      | Some (v, rest) \<Rightarrow> if skip_ws rest = [] then Some v else None)"

text \<open>
  \<open>https_hostname\<close>: the host of an \<open>https\<close> URL that has a lower-case host name and
  neither user info nor port.
\<close>

definition https_hostname :: "string \<Rightarrow> string option" where
  "https_hostname u =
     (let host = takeWhile (\<lambda>c. c \<noteq> CHR ''/'') (drop 8 u) in
      if take 8 u = ''https://'' \<and> host \<noteq> [] then Some host else None)"

text \<open>
  \<open>iso_instant\<close>: milliseconds since the epoch of a timestamp in the format that the
  notifications carry, \<open>YYYY-MM-DDTHH:mm:ss.sssZ\<close>; every other text is taken as an
  Invalid Date.
\<close>

definition all_digits :: "string \<Rightarrow> bool" where
  "all_digits ds = list_all is_digit ds"

definition leap_year :: "nat \<Rightarrow> bool" where
  "leap_year y = (y mod 4 = 0 \<and> (y mod 100 \<noteq> 0 \<or> y mod 400 = 0))"

definition days_in_month :: "nat \<Rightarrow> nat \<Rightarrow> nat" where
  "days_in_month y m =
     (if m = 2 then (if leap_year y then 29 else 28)
      else if m = 4 \<or> m = 6 \<or> m = 9 \<or> m = 11 then 30 else 31)"

definition days_from_civil :: "nat \<Rightarrow> nat \<Rightarrow> nat \<Rightarrow> int" where
  "days_from_civil y m d =
     (let y' = (if m \<le> 2 then int y - 1 else int y);
          era = y' div 400;
          yoe = y' - era * 400;
          mp = (if m > 2 then int m - 3 else int m + 9);
          doy = (153 * mp + 2) div 5 + int d - 1;
          doe = yoe * 365 + yoe div 4 - yoe div 100 + doy in
      era * 146097 + doe - 719468)"

definition iso_shape :: "string \<Rightarrow> bool" where
  "iso_shape t =
     (all_digits (take 4 t) \<and> t ! 4 = CHR ''-''
      \<and> all_digits (take 2 (drop 5 t)) \<and> t ! 7 = CHR ''-''
      \<and> all_digits (take 2 (drop 8 t)) \<and> t ! 10 = CHR ''T''
      \<and> all_digits (take 2 (drop 11 t)) \<and> t ! 13 = CHR '':''
      \<and> all_digits (take 2 (drop 14 t)) \<and> t ! 16 = CHR '':''
      \<and> all_digits (take 2 (drop 17 t)) \<and> t ! 19 = CHR ''.''
      \<and> all_digits (take 3 (drop 20 t)) \<and> t ! 23 = CHR ''Z'')"

definition iso_instant :: "string \<Rightarrow> int option" where
  "iso_instant t =
     (if length t \<noteq> 24 then None
      else if \<not> iso_shape t then None
      else
        (let y = digits_value (take 4 t);
             m = digits_value (take 2 (drop 5 t));
             d = digits_value (take 2 (drop 8 t));
             hh = digits_value (take 2 (drop 11 t));
             mi = digits_value (take 2 (drop 14 t));
             ss = digits_value (take 2 (drop 17 t));
             ms = digits_value (take 3 (drop 20 t)) in
         if 1 \<le> m \<and> m \<le> 12 \<and> 1 \<le> d \<and> d \<le> days_in_month y m
            \<and> hh \<le> 23 \<and> mi \<le> 59 \<and> ss \<le> 59
         then Some ((((days_from_civil y m d * 24 + int hh) * 60 + int mi) * 60 + int ss) * 1000
                    + int ms)
         else None))"

text \<open>An envelope with the signature fields that \<open>verifySignature\<close> asks for.\<close>

definition example_envelope :: "js \<Rightarrow> js" where
  "example_envelope msg = Obj
     [(''Type'', Str ''Notification''),
      (''Message'', msg),
      (''SigningCertURL'', Str ''https://sns.us-east-1.amazonaws.com/cert.pem''),
      (''Signature'', Str ''c2lnbmF0dXJl''),
      (''SignatureVersion'', Str ''1'')]"

text \<open>
  A bounce notification for two recipients, the second one without a diagnostic code; a
  store that holds the header line only; a file system without faults.
\<close>

definition example_bounce :: js where
  "example_bounce = Obj
     [(''notificationType'', Str ''Bounce''),
      (''bounce'', Obj
         [(''bounceType'', Str ''Permanent''),
          (''bouncedRecipients'', Arr
             [Obj [(''emailAddress'', Str ''a@example.com''), (''diagnosticCode'', Str ''550'')],
              Obj [(''emailAddress'', Str ''b@example.com'')]]),
          (''timestamp'', Str ''2024-01-15T10:30:00.000Z'')]),
      (''mail'', Obj [(''source'', Str ''s@example.com''), (''sourceIp'', Str ''192.0.2.1'')])]"

definition example_store :: fs_state where
  "example_store = \<lparr>csv_file = [header_titles], lock_file = False, fs_log = []\<rparr>"

definition io_ok :: io where
  "io_ok = \<lparr>lock_write_ok = True, append_ok = True, unlink_try_ok = True,
             unlink_catch_ok = True\<rparr>"

text \<open>A bounce notification with an empty recipient list.\<close>

definition example_no_recipients :: js where
  "example_no_recipients = Obj
     [(''notificationType'', Str ''Bounce''),
      (''bounce'', Obj
         [(''bouncedRecipients'', Arr []), (''timestamp'', Str ''2024-01-15T10:30:00.000Z'')]),
      (''mail'', Obj [(''source'', Str ''s@example.com''), (''sourceIp'', Str ''192.0.2.1'')])]"

text \<open>
  A bounce notification whose \<open>mail\<close> object has an empty \<open>source\<close> and no
  \<open>sourceIp\<close>.
\<close>

definition example_blank_source :: js where
  "example_blank_source = Obj
     [(''notificationType'', Str ''Bounce''),
      (''bounce'', Obj
         [(''bounceType'', Str ''Permanent''),
          (''bouncedRecipients'', Arr [Obj [(''emailAddress'', Str ''a@example.com'')]]),
          (''timestamp'', Str ''2024-01-15T10:30:00.000Z'')]),
      (''mail'', Obj [(''source'', Str [])])]"

text \<open>A bounce notification whose \<open>bounceType\<close> is an empty array.\<close>

definition example_array_type :: js where
  "example_array_type = Obj
     [(''notificationType'', Str ''Bounce''),
      (''bounce'', Obj
         [(''bounceType'', Arr []),
          (''bouncedRecipients'', Arr [Obj [(''emailAddress'', Str ''a@example.com'')]]),
          (''timestamp'', Str ''2024-01-15T10:30:00.000Z'')]),
      (''mail'', Obj [(''source'', Str ''s@example.com''), (''sourceIp'', Str ''192.0.2.1'')])]"

text \<open>A bounce notification whose \<open>mail\<close> object is present but has no \<open>source\<close>.\<close>

definition example_no_source :: js where
  "example_no_source = Obj
     [(''notificationType'', Str ''Bounce''),
      (''bounce'', Obj
         [(''bounceType'', Str ''Permanent''),
          (''bouncedRecipients'', Arr [Obj [(''emailAddress'', Str ''a@example.com'')]]),
          (''timestamp'', Str ''2024-01-15T10:30:00.000Z'')]),
      (''mail'', Obj [(''sourceIp'', Str ''192.0.2.1'')])]"

text \<open>
  A store of the line-based iteration after two bounces, one of 2 January and one of
  15 January 2024, and the clock of the job that runs at midnight on 16 January.
\<close>

definition example_written_store :: string where
  \<open>example_written_store =
     ''Bounced Email,Timestamp,Source Email,Source IP\<newline>"b@example.com","2024-01-02T08:00:00.000Z","s@example.com","192.0.2.1"\<newline>"a@example.com","2024-01-15T10:30:00.000Z","s@example.com","192.0.2.1"\<newline>''\<close>

definition example_now :: int where
  "example_now = 1705363200000"

text \<open>
  The cutoff 2024-01-10T00:00:00.000Z, a stored row, and a Message whose quotes are
  escaped once: \<^verbatim>\<open>{\"notificationType\":\"Bounce\"}\<close>.
\<close>

definition example_cutoff :: int where
  "example_cutoff = 1704844800000"

definition example_record_row :: row where
  "example_record_row =
     [''a@example.com'', ''2024-01-15T10:30:00.000Z'', ''s@example.com'', ''192.0.2.1'',
      ''Permanent'', ''General'', ''550'', ''mta.example.com'', ''0100018d''] "

definition example_escaped :: string where
  \<open>example_escaped =
     ''{'' @ [CHR 0x5C] @ ''"notificationType'' @ [CHR 0x5C] @ ''":'' @ [CHR 0x5C] @ ''"Bounce''
       @ [CHR 0x5C] @ ''"}''\<close>

section \<open>Properties of the store\<close>

lemma appendToCsv_cases:
  "appendToCsv f data s =
     (if \<not> lock_write_ok f then
        (Inl StoreUnavailable,
         s\<lparr>lock_file := lock_file s \<and> \<not> unlink_catch_ok f,
           fs_log := fs_log s @ [WriteLock, UnlinkLock]\<rparr>)
      else if \<not> append_ok f then
        (Inl StoreUnavailable,
         s\<lparr>lock_file := \<not> unlink_catch_ok f,
           fs_log := fs_log s @ [WriteLock, AppendCsv, UnlinkLock]\<rparr>)
      else if unlink_try_ok f then
        (Inr (),
         s\<lparr>csv_file := csv_file s @ stringifyRecords data, lock_file := False,
           fs_log := fs_log s @ [WriteLock, AppendCsv, UnlinkLock]\<rparr>)
      else
        (Inl StoreUnavailable,
         s\<lparr>csv_file := csv_file s @ stringifyRecords data, lock_file := \<not> unlink_catch_ok f,
           fs_log := fs_log s @ [WriteLock, AppendCsv, UnlinkLock, UnlinkLock]\<rparr>))"
  by (cases "lock_file s"; cases "unlink_catch_ok f")
     (simp_all add: appendToCsv_def append_try_def unlink_lock_def log_op_def Let_def)

text \<open>
  When is the lock file left behind? Exactly when the last removal that the call
  attempts fails on an existing lock file.
\<close>

lemma lock_left_held_iff:
  "lock_file (snd (appendToCsv f data s)) \<longleftrightarrow>
     \<not> unlink_catch_ok f \<and>
     (if lock_write_ok f then \<not> (append_ok f \<and> unlink_try_ok f) else lock_file s)"
  by (auto simp: appendToCsv_cases)

text \<open>
  Claim C9, as amended. \<open>appendToCsv\<close> creates the lock file before it writes and
  attempts to remove it on every exit path. Provided the removal of the lock file does
  not itself fail, the lock file does not exist when the call returns, whatever the
  outcome of creating the lock and of the write: the operations are attempted in the
  order lock, write, unlock, the call succeeds exactly when creating the lock and the
  write succeeded, and only then is the CSV file extended.
\<close>

theorem append_releases_lock:
  assumes "unlink_try_ok f" and "unlink_catch_ok f"
  shows "\<not> lock_file (snd (appendToCsv f data s)) \<and>
   (\<exists>ops. fs_log (snd (appendToCsv f data s)) = fs_log s @ WriteLock # ops @ [UnlinkLock] \<and>
          (ops = [] \<or> ops = [AppendCsv])) \<and>
   (fst (appendToCsv f data s) = Inr () \<longleftrightarrow> lock_write_ok f \<and> append_ok f) \<and>
   csv_file (snd (appendToCsv f data s)) =
     (if lock_write_ok f \<and> append_ok f then csv_file s @ stringifyRecords data else csv_file s)"
  using assms by (simp add: appendToCsv_cases)

text \<open>A failing write with a stale lock file present, and a successful append.\<close>

theorem append_releases_lock_witness:
  "\<not> lock_file (snd (appendToCsv
        \<lparr>lock_write_ok = True, append_ok = False, unlink_try_ok = True, unlink_catch_ok = True\<rparr>
        [] \<lparr>csv_file = [header_titles], lock_file = True, fs_log = []\<rparr>)) \<and>
   \<not> lock_file (snd (appendToCsv
        \<lparr>lock_write_ok = True, append_ok = True, unlink_try_ok = True, unlink_catch_ok = True\<rparr>
        [] \<lparr>csv_file = [header_titles], lock_file = False, fs_log = []\<rparr>))"
proof -
  have a: "unlink_try_ok
             \<lparr>lock_write_ok = True, append_ok = False, unlink_try_ok = True, unlink_catch_ok = True\<rparr>"
    and b: "unlink_catch_ok
             \<lparr>lock_write_ok = True, append_ok = False, unlink_try_ok = True, unlink_catch_ok = True\<rparr>"
    and c: "unlink_try_ok
             \<lparr>lock_write_ok = True, append_ok = True, unlink_try_ok = True, unlink_catch_ok = True\<rparr>"
    and d: "unlink_catch_ok
             \<lparr>lock_write_ok = True, append_ok = True, unlink_try_ok = True, unlink_catch_ok = True\<rparr>"
    by simp_all
  show ?thesis
    using append_releases_lock [OF a b, of "[]"
            "\<lparr>csv_file = [header_titles], lock_file = True, fs_log = []\<rparr>"]
          append_releases_lock [OF c d, of "[]"
            "\<lparr>csv_file = [header_titles], lock_file = False, fs_log = []\<rparr>"]
    by blast
qed

text \<open>
  Claim C9 as stated fails when the removal of the lock file fails. With a failing write
  and a failing removal the call returns its error and the lock file is still there. With
  a successful write and failing removals the call returns an error although the rows
  are written, and the lock file is still there.
\<close>

theorem lock_left_held_counterexample:
  "appendToCsv
     \<lparr>lock_write_ok = True, append_ok = False, unlink_try_ok = True, unlink_catch_ok = False\<rparr>
     [] \<lparr>csv_file = [header_titles], lock_file = False, fs_log = []\<rparr> =
     (Inl StoreUnavailable,
      \<lparr>csv_file = [header_titles], lock_file = True,
        fs_log = [WriteLock, AppendCsv, UnlinkLock]\<rparr>) \<and>
   appendToCsv
     \<lparr>lock_write_ok = True, append_ok = True, unlink_try_ok = False, unlink_catch_ok = False\<rparr>
     [] \<lparr>csv_file = [header_titles], lock_file = False, fs_log = []\<rparr> =
     (Inl StoreUnavailable,
      \<lparr>csv_file = [header_titles, []], lock_file = True,
        fs_log = [WriteLock, AppendCsv, UnlinkLock, UnlinkLock]\<rparr>)"
  by (simp add: appendToCsv_cases stringifyRecords_def)

section \<open>Properties of the notification endpoint\<close>

lemma processSNSMessage_decoded:
  assumes "verifySignature H body"
    and "get_prop body ''Message'' = Inr msg"
    and "decode_message P msg = Inr content"
    and "get_prop content ''notificationType'' = Inr kind"
  shows "processSNSMessage P H body = (if kind \<noteq> Str ''Bounce'' then Inr Null else Inr content)"
  using assms by (simp add: processSNSMessage_def)

lemma bounce_content_truthy:
  assumes "get_prop content ''notificationType'' = Inr (Str ''Bounce'')"
  shows "truthy content"
  using assms by (cases content) (auto simp: get_prop_def split: if_splits)

lemma truthy_not_nullish: "truthy v \<Longrightarrow> \<not> nullish v"
  by (cases v) auto

lemma example_envelope_verified [simp]: "verifySignature https_hostname (example_envelope msg)"
  by (simp add: verifySignature_def example_envelope_def https_hostname_def ends_with_def)

lemma example_envelope_Message [simp]: "get_prop (example_envelope msg) ''Message'' = Inr msg"
  by (simp add: example_envelope_def get_prop_def)

lemma map_records_ok:
  assumes "\<not> nullish bounce" "\<not> nullish mail" "\<forall>r \<in> set rs. \<not> nullish r"
  shows "\<exists>recs. map_records bounce mail rs = Inr recs \<and> length recs = length rs \<and>
           (\<forall>i < length rs. bounce_record bounce mail (rs ! i) = Inr (recs ! i))"
  using assms(3)
proof (induction rs)
  case Nil
  then show ?case by simp
next
  case (Cons r rs)
  then obtain recs where recs: "map_records bounce mail rs = Inr recs" "length recs = length rs"
      "\<forall>i < length rs. bounce_record bounce mail (rs ! i) = Inr (recs ! i)"
    by auto
  from Cons.prems assms(1,2) obtain x where x: "bounce_record bounce mail r = Inr x"
    by (simp add: bounce_record_def)
  have "map_records bounce mail (r # rs) = Inr (x # recs)"
    using x recs(1) by simp
  moreover have "\<forall>i < length (r # rs). bounce_record bounce mail ((r # rs) ! i) = Inr ((x # recs) ! i)"
    using x recs(3) by (auto simp: nth_Cons split: nat.splits)
  ultimately show ?case using recs(2) by auto
qed

lemma map_records_Inr:
  "map_records bounce mail rs = Inr recs \<Longrightarrow>
     length recs = length rs \<and> (\<forall>i < length rs. bounce_record bounce mail (rs ! i) = Inr (recs ! i))"
proof (induction rs arbitrary: recs)
  case Nil
  then show ?case by simp
next
  case (Cons r rs)
  from Cons.prems obtain x xs where x: "bounce_record bounce mail r = Inr x"
    and xs: "map_records bounce mail rs = Inr xs" and r: "recs = x # xs"
    by (auto split: sum.splits)
  from Cons.IH [OF xs] x r show ?case
    by (auto simp: nth_Cons split: nat.splits)
qed

lemma bounce_record_fields:
  assumes "bounce_record bounce mail r = Inr x"
  shows "read_prop x ''email'' = read_prop r ''emailAddress''"
    and "read_prop x ''timestamp'' = read_prop bounce ''timestamp''"
    and "read_prop x ''sourceEmail'' = read_prop mail ''source''"
    and "read_prop x ''sourceIp'' = read_prop mail ''sourceIp''"
    and "read_prop x ''bounceType'' = js_or (read_prop bounce ''bounceType'') (Str ''Unknown'')"
    and "read_prop x ''bounceSubType'' = js_or (read_prop bounce ''bounceSubType'') (Str ''Unknown'')"
    and "read_prop x ''diagnosticCode'' = js_or (read_prop r ''diagnosticCode'') (Str ''Not provided'')"
    and "read_prop x ''reportingMTA'' = js_or (read_prop bounce ''reportingMTA'') (Str ''Not provided'')"
    and "read_prop x ''feedbackId'' = js_or (read_prop bounce ''feedbackId'') (Str ''Not provided'')"
  using assms by (auto simp: bounce_record_def split: if_splits)

text \<open>
  Claim C7. When the envelope passes the signature check, its Message decodes, and the
  \<open>notificationType\<close> read from the decoded content is anything but \<open>Bounce\<close>
  (a complaint, a subscription confirmation, no type at all), the handler answers 200
  with "Non-bounce notification ignored" and leaves the store untouched.
\<close>

theorem non_bounce_ignored:
  assumes "verifySignature H body"
    and "get_prop body ''Message'' = Inr msg"
    and "decode_message P msg = Inr content"
    and "get_prop content ''notificationType'' = Inr kind"
    and "kind \<noteq> Str ''Bounce''"
  shows "sns_body P H f body s = (Inr Ignored, s) \<and>
         sns_handler P H f body s =
           (\<lparr>status = 200, message = ''Non-bounce notification ignored''\<rparr>, s)"
  using assms by (simp add: sns_handler_def sns_body_def processSNSMessage_decoded)

text \<open>A complaint notification whose Message is JSON text.\<close>

theorem non_bounce_ignored_witness:
  \<open>sns_handler json_parse https_hostname io_ok
     (example_envelope (Str ''{"notificationType":"Complaint"}'')) example_store =
   (\<lparr>status = 200, message = ''Non-bounce notification ignored''\<rparr>, example_store)\<close>
proof -
  have d: \<open>decode_message json_parse (Str ''{"notificationType":"Complaint"}'') =
           Inr (Obj [(''notificationType'', Str ''Complaint'')])\<close>
    by code_simp
  have k: "get_prop (Obj [(''notificationType'', Str ''Complaint'')]) ''notificationType'' =
           Inr (Str ''Complaint'')"
    by (simp add: get_prop_def)
  have n: "Str ''Complaint'' \<noteq> Str ''Bounce''" by simp
  show ?thesis
    using non_bounce_ignored [OF example_envelope_verified example_envelope_Message d k n]
    by simp
qed

text \<open>
  A subscription confirmation as the notification service sends it carries a plain-text
  Message; it does not decode, and the handler answers 500.
\<close>

lemma plain_text_message_rejected:
  "sns_handler json_parse https_hostname io_ok
     (example_envelope (Str ''You have chosen to subscribe to the topic'')) example_store =
   (\<lparr>status = 500, message = ''Internal server error''\<rparr>, example_store)"
  by code_simp

text \<open>
  Claim C6, as amended. When the decoded content is a Bounce notification but its
  recipient list is empty or absent, or its \<open>mail\<close> object is absent, the handler throws
  "Invalid bounce data structure" before anything is written: the store is untouched.
  The handler's \<open>catch\<close> answers this error, like every other, with status 500
  "Internal server error". The guard looks at the \<open>mail\<close> object only, not at its
  \<open>source\<close>.
\<close>

theorem invalid_bounce_structure:
  assumes "verifySignature H body"
    and "get_prop body ''Message'' = Inr msg"
    and "decode_message P msg = Inr content"
    and "get_prop content ''notificationType'' = Inr (Str ''Bounce'')"
    and "nullish (read_prop content ''bounce'')
         \<or> nullish (read_prop (read_prop content ''bounce'') ''bouncedRecipients'')
         \<or> read_prop (read_prop content ''bounce'') ''bouncedRecipients'' = Arr []
         \<or> nullish (read_prop content ''mail'')"
  shows "sns_body P H f body s = (Inl InvalidBounceStructure, s) \<and>
         sns_handler P H f body s = (\<lparr>status = 500, message = ''Internal server error''\<rparr>, s)"
proof -
  have t: "truthy content" using assms(4) by (rule bounce_content_truthy)
  have n: "\<And>v. nullish v \<Longrightarrow> \<not> truthy v" by (case_tac v) auto
  have g: "\<not> truthy (opt_prop (opt_prop (read_prop content ''bounce'') ''bouncedRecipients'') ''length'')
        \<or> \<not> truthy (read_prop content ''mail'')"
    using assms(5) n by (auto simp: opt_prop_def)
  have "sns_body P H f body s = (Inl InvalidBounceStructure, s)"
    using assms(1-4) t g by (simp add: sns_body_def processSNSMessage_decoded Let_def)
  then show ?thesis by (simp add: sns_handler_def)
qed

text \<open>A bounce notification with an empty recipient list.\<close>

theorem invalid_bounce_structure_witness:
  "sns_body json_parse https_hostname io_ok (example_envelope example_no_recipients)
     example_store = (Inl InvalidBounceStructure, example_store)"
proof -
  have d: "decode_message json_parse example_no_recipients = Inr example_no_recipients"
    by (simp add: decode_message_def example_no_recipients_def)
  have k: "get_prop example_no_recipients ''notificationType'' = Inr (Str ''Bounce'')"
    by (simp add: get_prop_def example_no_recipients_def)
  have e: "nullish (read_prop example_no_recipients ''bounce'')
         \<or> nullish (read_prop (read_prop example_no_recipients ''bounce'') ''bouncedRecipients'')
         \<or> read_prop (read_prop example_no_recipients ''bounce'') ''bouncedRecipients'' = Arr []
         \<or> nullish (read_prop example_no_recipients ''mail'')"
    by (simp add: example_no_recipients_def)
  show ?thesis
    using invalid_bounce_structure [OF example_envelope_verified example_envelope_Message d k e]
    by simp
qed

text \<open>
  Claim C6 as stated fails in two ways. A Bounce notification whose \<open>mail\<close> object is
  present but carries no \<open>source\<close> passes the guard: the handler answers 200 and stores
  a line with an empty source email. And the notification with the empty recipient list
  is answered with status 500, the answer to an internal fault, not with a client error.
\<close>

theorem source_absent_accepted_counterexample:
  "sns_handler json_parse https_hostname io_ok (example_envelope example_no_source)
     example_store =
     (\<lparr>status = 200, message = ''Bounce processed successfully''\<rparr>,
      \<lparr>csv_file = [header_titles,
          [''a@example.com'', ''2024-01-15T10:30:00.000Z'', [], ''192.0.2.1'', ''Permanent'',
           ''Unknown'', ''Not provided'', ''Not provided'', ''Not provided'']],
        lock_file = False, fs_log = [WriteLock, AppendCsv, UnlinkLock]\<rparr>) \<and>
   sns_handler json_parse https_hostname io_ok (example_envelope example_no_recipients)
     example_store =
     (\<lparr>status = 500, message = ''Internal server error''\<rparr>, example_store)"
  by code_simp

text \<open>
  Claim C2. For a valid Bounce envelope with \<open>N \<ge> 1\<close> recipients (each an object) and a
  store that can be written, the handler appends exactly \<open>N\<close> lines, one per recipient
  and in the order of the recipients, and answers 200 (when also the removal of the lock
  file succeeds). The \<open>i\<close>-th record takes its email
  and its diagnostic code from the \<open>i\<close>-th recipient; all its other fields, the
  timestamp, the source email and the source IP among them, come from the event and are
  the same for every record.
\<close>

theorem bounce_one_record_per_recipient:
  assumes "verifySignature H body"
    and "get_prop body ''Message'' = Inr msg"
    and "decode_message P msg = Inr content"
    and "get_prop content ''notificationType'' = Inr (Str ''Bounce'')"
    and "read_prop content ''bounce'' = bounce"
    and "read_prop content ''mail'' = mail"
    and "read_prop bounce ''bouncedRecipients'' = Arr rs"
    and "rs \<noteq> []"
    and "\<forall>r \<in> set rs. \<not> nullish r"
    and "truthy mail"
    and "lock_write_ok f \<and> append_ok f"
  shows "\<exists>recs s'.
           snd (sns_handler P H f body s) = s' \<and>
           (unlink_try_ok f \<longrightarrow>
              sns_handler P H f body s =
                (\<lparr>status = 200, message = ''Bounce processed successfully''\<rparr>, s')) \<and>
           csv_file s' = csv_file s @ map record_row recs \<and>
           length recs = length rs \<and>
           (\<forall>i < length rs.
              read_prop (recs ! i) ''email'' = read_prop (rs ! i) ''emailAddress'' \<and>
              read_prop (recs ! i) ''diagnosticCode'' =
                js_or (read_prop (rs ! i) ''diagnosticCode'') (Str ''Not provided'') \<and>
              read_prop (recs ! i) ''timestamp'' = read_prop bounce ''timestamp'' \<and>
              read_prop (recs ! i) ''sourceEmail'' = read_prop mail ''source'' \<and>
              read_prop (recs ! i) ''sourceIp'' = read_prop mail ''sourceIp'' \<and>
              read_prop (recs ! i) ''bounceType'' =
                js_or (read_prop bounce ''bounceType'') (Str ''Unknown'') \<and>
              read_prop (recs ! i) ''bounceSubType'' =
                js_or (read_prop bounce ''bounceSubType'') (Str ''Unknown'') \<and>
              read_prop (recs ! i) ''reportingMTA'' =
                js_or (read_prop bounce ''reportingMTA'') (Str ''Not provided'') \<and>
              read_prop (recs ! i) ''feedbackId'' =
                js_or (read_prop bounce ''feedbackId'') (Str ''Not provided''))"
proof -
  have tc: "truthy content" using assms(4) by (rule bounce_content_truthy)
  have nb: "\<not> nullish bounce" using assms(7) by (cases bounce) auto
  have nm: "\<not> nullish mail" using assms(10) by (rule truthy_not_nullish)
  have len: "truthy (opt_prop (opt_prop bounce ''bouncedRecipients'') ''length'')"
    using nb assms(7,8) by (simp add: opt_prop_def)
  obtain recs where recs: "map_records bounce mail rs = Inr recs" "length recs = length rs"
      "\<forall>i < length rs. bounce_record bounce mail (rs ! i) = Inr (recs ! i)"
    using map_records_ok [OF nb nm assms(9)] by blast
  have br: "bounce_records bounce mail = Inr recs"
    using nb assms(7) recs(1) by (simp add: bounce_records_def get_prop_def)
  have ne: "recs \<noteq> []" using recs(2) assms(8) by auto
  define s' where "s' = snd (appendToCsv f recs s)"
  have ap: "appendToCsv f recs s =
              (if unlink_try_ok f then Inr () else Inl StoreUnavailable, s')"
    and csv: "csv_file s' = csv_file s @ map record_row recs"
    using assms(11) ne by (simp_all add: s'_def appendToCsv_cases stringifyRecords_def)
  have body: "sns_body P H f body s =
                (if unlink_try_ok f then Inr Processed else Inl StoreUnavailable, s')"
    using assms(1-6) tc len assms(10) br ap
    by (simp add: sns_body_def processSNSMessage_decoded Let_def)
  have st: "snd (sns_handler P H f body s) = s'"
    using body by (simp add: sns_handler_def)
  have h: "unlink_try_ok f \<longrightarrow>
           sns_handler P H f body s =
             (\<lparr>status = 200, message = ''Bounce processed successfully''\<rparr>, s')"
    using body by (simp add: sns_handler_def)
  have flds: "\<forall>i < length rs.
              read_prop (recs ! i) ''email'' = read_prop (rs ! i) ''emailAddress'' \<and>
              read_prop (recs ! i) ''diagnosticCode'' =
                js_or (read_prop (rs ! i) ''diagnosticCode'') (Str ''Not provided'') \<and>
              read_prop (recs ! i) ''timestamp'' = read_prop bounce ''timestamp'' \<and>
              read_prop (recs ! i) ''sourceEmail'' = read_prop mail ''source'' \<and>
              read_prop (recs ! i) ''sourceIp'' = read_prop mail ''sourceIp'' \<and>
              read_prop (recs ! i) ''bounceType'' =
                js_or (read_prop bounce ''bounceType'') (Str ''Unknown'') \<and>
              read_prop (recs ! i) ''bounceSubType'' =
                js_or (read_prop bounce ''bounceSubType'') (Str ''Unknown'') \<and>
              read_prop (recs ! i) ''reportingMTA'' =
                js_or (read_prop bounce ''reportingMTA'') (Str ''Not provided'') \<and>
              read_prop (recs ! i) ''feedbackId'' =
                js_or (read_prop bounce ''feedbackId'') (Str ''Not provided'')"
  proof (intro allI impI)
    fix i assume "i < length rs"
    with recs(3) have r: "bounce_record bounce mail (rs ! i) = Inr (recs ! i)" by simp
    show "read_prop (recs ! i) ''email'' = read_prop (rs ! i) ''emailAddress'' \<and>
              read_prop (recs ! i) ''diagnosticCode'' =
                js_or (read_prop (rs ! i) ''diagnosticCode'') (Str ''Not provided'') \<and>
              read_prop (recs ! i) ''timestamp'' = read_prop bounce ''timestamp'' \<and>
              read_prop (recs ! i) ''sourceEmail'' = read_prop mail ''source'' \<and>
              read_prop (recs ! i) ''sourceIp'' = read_prop mail ''sourceIp'' \<and>
              read_prop (recs ! i) ''bounceType'' =
                js_or (read_prop bounce ''bounceType'') (Str ''Unknown'') \<and>
              read_prop (recs ! i) ''bounceSubType'' =
                js_or (read_prop bounce ''bounceSubType'') (Str ''Unknown'') \<and>
              read_prop (recs ! i) ''reportingMTA'' =
                js_or (read_prop bounce ''reportingMTA'') (Str ''Not provided'') \<and>
              read_prop (recs ! i) ''feedbackId'' =
                js_or (read_prop bounce ''feedbackId'') (Str ''Not provided'')"
      using bounce_record_fields [OF r] by simp
  qed
  show ?thesis
    by (intro exI [of _ recs] exI [of _ s'] conjI st h csv recs(2) flds)
qed

text \<open>The two-recipient notification appends two lines.\<close>

theorem bounce_one_record_per_recipient_witness:
  "\<exists>recs s'.
     sns_handler json_parse https_hostname io_ok (example_envelope example_bounce) example_store =
       (\<lparr>status = 200, message = ''Bounce processed successfully''\<rparr>, s') \<and>
     csv_file s' = [header_titles] @ map record_row recs \<and> length recs = 2 \<and>
     read_prop (recs ! 0) ''email'' = Str ''a@example.com'' \<and>
     read_prop (recs ! 1) ''email'' = Str ''b@example.com'' \<and>
     read_prop (recs ! 0) ''timestamp'' = read_prop (recs ! 1) ''timestamp''"
proof -
  let ?rs = "[Obj [(''emailAddress'', Str ''a@example.com''), (''diagnosticCode'', Str ''550'')],
              Obj [(''emailAddress'', Str ''b@example.com'')]]"
  have d: "decode_message json_parse example_bounce = Inr example_bounce"
    by (simp add: decode_message_def example_bounce_def)
  have k: "get_prop example_bounce ''notificationType'' = Inr (Str ''Bounce'')"
    by (simp add: get_prop_def example_bounce_def)
  have r: "read_prop (read_prop example_bounce ''bounce'') ''bouncedRecipients'' = Arr ?rs"
    by (simp add: example_bounce_def)
  have ne: "?rs \<noteq> []" by simp
  have nn: "\<forall>r \<in> set ?rs. \<not> nullish r" by simp
  have m: "truthy (read_prop example_bounce ''mail'')"
    by (simp add: example_bounce_def)
  have f: "lock_write_ok io_ok \<and> append_ok io_ok" by (simp add: io_ok_def)
  from bounce_one_record_per_recipient
         [OF example_envelope_verified example_envelope_Message d k refl refl r ne nn m f,
          of example_store]
  obtain recs s' where
    h0: "unlink_try_ok io_ok \<longrightarrow>
         sns_handler json_parse https_hostname io_ok (example_envelope example_bounce) example_store =
          (\<lparr>status = 200, message = ''Bounce processed successfully''\<rparr>, s')"
    and c: "csv_file s' = csv_file example_store @ map record_row recs"
    and l: "length recs = length ?rs"
    and fl: "\<forall>i < length ?rs.
               read_prop (recs ! i) ''email'' = read_prop (?rs ! i) ''emailAddress'' \<and>
               read_prop (recs ! i) ''diagnosticCode'' =
                 js_or (read_prop (?rs ! i) ''diagnosticCode'') (Str ''Not provided'') \<and>
               read_prop (recs ! i) ''timestamp'' =
                 read_prop (read_prop example_bounce ''bounce'') ''timestamp''"
    by blast
  have h: "sns_handler json_parse https_hostname io_ok (example_envelope example_bounce)
             example_store =
           (\<lparr>status = 200, message = ''Bounce processed successfully''\<rparr>, s')"
    using h0 by (simp add: io_ok_def)
  have e0: "read_prop (recs ! 0) ''email'' = Str ''a@example.com''"
    and t0: "read_prop (recs ! 0) ''timestamp'' =
               read_prop (read_prop example_bounce ''bounce'') ''timestamp''"
    using fl [rule_format, of 0] by simp_all
  have e1: "read_prop (recs ! 1) ''email'' = Str ''b@example.com''"
    and t1: "read_prop (recs ! 1) ''timestamp'' =
               read_prop (read_prop example_bounce ''bounce'') ''timestamp''"
    using fl [rule_format, of 1] by simp_all
  have c': "csv_file s' = [header_titles] @ map record_row recs"
    using c by (simp add: example_store_def)
  have l': "length recs = 2" using l by simp
  show ?thesis
    using h c' l' e0 e1 t0 t1 by (intro exI [of _ recs] exI [of _ s']) simp
qed

text \<open>
  The first version of the handler stores the first recipient only: the two-recipient
  notification adds a single line.
\<close>

lemma first_version_stores_first_recipient:
  "sns_body_v1 example_bounce ''Bounced Email,Timestamp,Source Email,Source IP\<newline>'' =
   Inr (''Bounced Email,Timestamp,Source Email,Source IP\<newline>'' @
        ''a@example.com,2024-01-15T10:30:00.000Z,s@example.com,192.0.2.1\<newline>'')"
  by code_simp

text \<open>
  The line that the stringifier writes for a record of the handler, cell by cell.
\<close>

lemma show_nat_not_Nil: "show_nat n \<noteq> []"
  by (subst show_nat.simps) (simp del: show_nat.simps)

lemma truthy_empty_text: "truthy v \<Longrightarrow> to_String v = [] \<Longrightarrow> \<exists>xs. v = Arr xs"
  by (cases v) (auto simp: show_int_def show_nat_not_Nil split: if_splits)

lemma field_stringify_or:
  "d \<noteq> [] \<Longrightarrow> field_stringify (js_or v (Str d)) = (if truthy v then to_String v else d)"
  by (cases v) (auto simp: field_stringify_def js_or_def)

lemma record_row_bounce_record:
  assumes "bounce_record bounce mail r = Inr x"
  shows "record_row x =
     [field_stringify (read_prop r ''emailAddress''),
      field_stringify (read_prop bounce ''timestamp''),
      field_stringify (read_prop mail ''source''),
      field_stringify (read_prop mail ''sourceIp''),
      (if truthy (read_prop bounce ''bounceType'')
       then to_String (read_prop bounce ''bounceType'') else ''Unknown''),
      (if truthy (read_prop bounce ''bounceSubType'')
       then to_String (read_prop bounce ''bounceSubType'') else ''Unknown''),
      (if truthy (read_prop r ''diagnosticCode'')
       then to_String (read_prop r ''diagnosticCode'') else ''Not provided''),
      (if truthy (read_prop bounce ''reportingMTA'')
       then to_String (read_prop bounce ''reportingMTA'') else ''Not provided''),
      (if truthy (read_prop bounce ''feedbackId'')
       then to_String (read_prop bounce ''feedbackId'') else ''Not provided'')]"
proof -
  note f = bounce_record_fields [OF assms]
  have u: "field_stringify (js_or v (Str ''Unknown'')) =
             (if truthy v then to_String v else ''Unknown'')" for v
    by (rule field_stringify_or) simp
  have n: "field_stringify (js_or v (Str ''Not provided'')) =
             (if truthy v then to_String v else ''Not provided'')" for v
    by (rule field_stringify_or) simp
  show ?thesis
    unfolding record_row_def header_ids_def
    by (simp only: list.map f u n)
qed

text \<open>
  Claim C8, as amended. In the line stored for each recipient of an accepted bounce
  event, each of the five optional fields (\<open>bounceType\<close>, \<open>bounceSubType\<close>,
  \<open>diagnosticCode\<close>, \<open>reportingMTA\<close>, \<open>feedbackId\<close>) that is unset in the event is stored
  as the placeholder "Unknown" or "Not provided", and one that is set is stored as the
  text of its value; such a cell is empty only when the value is an array. In the record
  handed to the store these five fields are never undefined, null or the empty string.
  The four other cells (email, timestamp, source email, source IP) are the text of the
  event's value as it is, empty when that value is missing, null, the empty string or
  an array with empty text.
\<close>

theorem optional_fields_defaulted:
  assumes "read_prop bounce ''bouncedRecipients'' = Arr rs"
    and "bounce_records bounce mail = Inr recs"
    and "i < length rs"
  shows "length recs = length rs \<and>
         stringifyRecords recs ! i =
           [field_stringify (read_prop (rs ! i) ''emailAddress''),
            field_stringify (read_prop bounce ''timestamp''),
            field_stringify (read_prop mail ''source''),
            field_stringify (read_prop mail ''sourceIp''),
            (if truthy (read_prop bounce ''bounceType'')
             then to_String (read_prop bounce ''bounceType'') else ''Unknown''),
            (if truthy (read_prop bounce ''bounceSubType'')
             then to_String (read_prop bounce ''bounceSubType'') else ''Unknown''),
            (if truthy (read_prop (rs ! i) ''diagnosticCode'')
             then to_String (read_prop (rs ! i) ''diagnosticCode'') else ''Not provided''),
            (if truthy (read_prop bounce ''reportingMTA'')
             then to_String (read_prop bounce ''reportingMTA'') else ''Not provided''),
            (if truthy (read_prop bounce ''feedbackId'')
             then to_String (read_prop bounce ''feedbackId'') else ''Not provided'')] \<and>
         (\<forall>v \<in> {read_prop bounce ''bounceType'', read_prop bounce ''bounceSubType'',
                 read_prop (rs ! i) ''diagnosticCode'', read_prop bounce ''reportingMTA'',
                 read_prop bounce ''feedbackId''}.
            \<forall>placeholder \<in> {''Unknown'', ''Not provided''}.
              (if truthy v then to_String v else placeholder) = [] \<longrightarrow> (\<exists>xs. v = Arr xs)) \<and>
         (\<forall>k \<in> {''bounceType'', ''bounceSubType'', ''diagnosticCode'', ''reportingMTA'',
                 ''feedbackId''}.
            truthy (read_prop (recs ! i) k) \<and> read_prop (recs ! i) k \<noteq> Undefined \<and>
            read_prop (recs ! i) k \<noteq> Null \<and> read_prop (recs ! i) k \<noteq> Str [])"
proof -
  have nb: "\<not> nullish bounce" using assms(1) by (cases bounce) auto
  have mr: "map_records bounce mail rs = Inr recs"
    using assms(1,2) nb by (simp add: bounce_records_def get_prop_def)
  from map_records_Inr [OF mr] assms(3)
  have len: "length recs = length rs" and r: "bounce_record bounce mail (rs ! i) = Inr (recs ! i)"
    by auto
  have ne: "recs \<noteq> []" using len assms(3) by auto
  have row: "stringifyRecords recs ! i = record_row (recs ! i)"
    using ne len assms(3) by (simp add: stringifyRecords_def)
  have cells: "\<forall>v \<in> {read_prop bounce ''bounceType'', read_prop bounce ''bounceSubType'',
                 read_prop (rs ! i) ''diagnosticCode'', read_prop bounce ''reportingMTA'',
                 read_prop bounce ''feedbackId''}.
            \<forall>placeholder \<in> {''Unknown'', ''Not provided''}.
              (if truthy v then to_String v else placeholder) = [] \<longrightarrow> (\<exists>xs. v = Arr xs)"
    using truthy_empty_text by (auto split: if_splits)
  have t: "\<And>x d. truthy d \<Longrightarrow> truthy (js_or x d)" by (simp add: js_or_def)
  have tn: "\<And>v. truthy v \<Longrightarrow> v \<noteq> Undefined \<and> v \<noteq> Null \<and> v \<noteq> Str []" by auto
  note f = bounce_record_fields [OF r]
  have all: "\<forall>k \<in> {''bounceType'', ''bounceSubType'', ''diagnosticCode'', ''reportingMTA'',
                 ''feedbackId''}. truthy (read_prop (recs ! i) k)"
    using f(5-9) by (simp add: t)
  have mem: "\<forall>k \<in> {''bounceType'', ''bounceSubType'', ''diagnosticCode'', ''reportingMTA'',
                 ''feedbackId''}.
            truthy (read_prop (recs ! i) k) \<and> read_prop (recs ! i) k \<noteq> Undefined \<and>
            read_prop (recs ! i) k \<noteq> Null \<and> read_prop (recs ! i) k \<noteq> Str []"
  proof
    fix k
    assume "k \<in> {''bounceType'', ''bounceSubType'', ''diagnosticCode'', ''reportingMTA'',
                 ''feedbackId''}"
    with all have tk: "truthy (read_prop (recs ! i) k)" by (rule bspec)
    from tk tn [OF tk]
    show "truthy (read_prop (recs ! i) k) \<and> read_prop (recs ! i) k \<noteq> Undefined \<and>
            read_prop (recs ! i) k \<noteq> Null \<and> read_prop (recs ! i) k \<noteq> Str []"
      by (rule conjI)
  qed
  have rowv: "stringifyRecords recs ! i = record_row (recs ! i)"
    by (rule row)
  show ?thesis
    unfolding rowv record_row_bounce_record [OF r]
    by (rule conjI [OF len conjI [OF refl conjI [OF cells mem]]])
qed

text \<open>The line stored for the second recipient of the example, who has no diagnostic code.\<close>

theorem optional_fields_defaulted_witness:
  "\<exists>recs. bounce_records (read_prop example_bounce ''bounce'') (read_prop example_bounce ''mail'')
            = Inr recs \<and>
          stringifyRecords recs ! 1 =
            [''b@example.com'', ''2024-01-15T10:30:00.000Z'', ''s@example.com'', ''192.0.2.1'',
             ''Permanent'', ''Unknown'', ''Not provided'', ''Not provided'', ''Not provided'']"
proof -
  let ?rs = "[Obj [(''emailAddress'', Str ''a@example.com''), (''diagnosticCode'', Str ''550'')],
              Obj [(''emailAddress'', Str ''b@example.com'')]]"
  let ?b = "read_prop example_bounce ''bounce''"
  let ?m = "read_prop example_bounce ''mail''"
  have r: "read_prop ?b ''bouncedRecipients'' = Arr ?rs"
    by (simp add: example_bounce_def)
  obtain recs where br: "bounce_records ?b ?m = Inr recs"
    by (simp add: example_bounce_def bounce_records_def get_prop_def bounce_record_def)
  have i: "1 < length ?rs" by simp
  from optional_fields_defaulted [OF r br i]
  have "stringifyRecords recs ! 1 =
            [''b@example.com'', ''2024-01-15T10:30:00.000Z'', ''s@example.com'', ''192.0.2.1'',
             ''Permanent'', ''Unknown'', ''Not provided'', ''Not provided'', ''Not provided'']"
    by (simp add: example_bounce_def field_stringify_def)
  with br show ?thesis by blast
qed

text \<open>
  Claim C8 as stated fails in two ways. An accepted event whose \<open>mail.source\<close> is the
  empty string and whose \<open>mail.sourceIp\<close> is missing is stored with an empty source
  email and an empty source IP: these fields have no default. An accepted event whose
  \<open>bounceType\<close> is an empty array is stored with an empty bounce type: the array is
  truthy, so it keeps no placeholder, and its text is empty.
\<close>

theorem stored_field_empty_counterexample:
  "bounce_records (read_prop example_blank_source ''bounce'') (read_prop example_blank_source ''mail'')
     = Inr [Obj [(''email'', Str ''a@example.com''),
                 (''timestamp'', Str ''2024-01-15T10:30:00.000Z''),
                 (''sourceEmail'', Str []),
                 (''sourceIp'', Undefined),
                 (''bounceType'', Str ''Permanent''),
                 (''bounceSubType'', Str ''Unknown''),
                 (''diagnosticCode'', Str ''Not provided''),
                 (''reportingMTA'', Str ''Not provided''),
                 (''feedbackId'', Str ''Not provided'')]] \<and>
   sns_handler json_parse https_hostname io_ok (example_envelope example_blank_source)
     example_store =
     (\<lparr>status = 200, message = ''Bounce processed successfully''\<rparr>,
      \<lparr>csv_file = [header_titles,
          [''a@example.com'', ''2024-01-15T10:30:00.000Z'', [], [], ''Permanent'', ''Unknown'',
           ''Not provided'', ''Not provided'', ''Not provided'']],
        lock_file = False, fs_log = [WriteLock, AppendCsv, UnlinkLock]\<rparr>) \<and>
   sns_handler json_parse https_hostname io_ok (example_envelope example_array_type)
     example_store =
     (\<lparr>status = 200, message = ''Bounce processed successfully''\<rparr>,
      \<lparr>csv_file = [header_titles,
          [''a@example.com'', ''2024-01-15T10:30:00.000Z'', ''s@example.com'', ''192.0.2.1'', [],
           ''Unknown'', ''Not provided'', ''Not provided'', ''Not provided'']],
        lock_file = False, fs_log = [WriteLock, AppendCsv, UnlinkLock]\<rparr>)"
  by code_simp

section \<open>Properties of retention pruning\<close>

lemma split_on_not_Nil [simp]: "split_on c s \<noteq> []"
  by (induction s) (auto split: list.splits)

lemma split_on_no_sep: "l \<in> set (split_on c s) \<Longrightarrow> c \<notin> set l"
proof (induction s arbitrary: l)
  case Nil
  then show ?case by simp
next
  case (Cons x xs)
  show ?case
  proof (cases "x = c")
    case True
    with Cons show ?thesis by auto
  next
    case False
    obtain w ws where w: "split_on c xs = w # ws"
      by (cases "split_on c xs") auto
    with Cons.prems False have "l = x # w \<or> l \<in> set ws" by auto
    then show ?thesis
    proof
      assume "l = x # w"
      moreover have "c \<notin> set w" using Cons.IH [of w] w by simp
      ultimately show ?thesis using False by auto
    next
      assume "l \<in> set ws"
      then show ?thesis using Cons.IH [of l] w by simp
    qed
  qed
qed

lemma split_on_plain: "c \<notin> set l \<Longrightarrow> split_on c l = [l]"
  by (induction l) auto

lemma split_on_append: "c \<notin> set l \<Longrightarrow> split_on c (l @ c # rest) = l # split_on c rest"
  by (induction l) auto

lemma split_on_join:
  "ls \<noteq> [] \<Longrightarrow> \<forall>l \<in> set ls. c \<notin> set l \<Longrightarrow> split_on c (join_with c ls) = ls"
proof (induction c ls rule: join_with.induct)
  case (1 c)
  then show ?case by simp
next
  case (2 c l)
  then show ?case by (simp add: split_on_plain)
next
  case (3 c l m ls)
  then show ?case by (simp add: split_on_append)
qed

lemma keep_line_data:
  "has_timestamp_field l \<Longrightarrow> keep_line D cutoff (Suc i) l = Inr (recent_line D cutoff l)"
  unfolding has_timestamp_field_def keep_line_def recent_line_def line_timestamp_def
  by (cases "split_on CHR '','' l" rule: list.exhaust [case_names Nil Cons])
     (auto simp: Let_def split: list.splits)

lemma filter_lines_data:
  "\<forall>l \<in> set ls. has_timestamp_field l \<Longrightarrow>
     filter_lines D cutoff (Suc i) ls = Inr (filter (recent_line D cutoff) ls)"
  by (induction ls arbitrary: i) (simp_all add: keep_line_data)

lemma filter_lines_all:
  "\<forall>l \<in> set rows. has_timestamp_field l \<Longrightarrow>
     filter_lines D cutoff 0 (header # rows) = Inr (header # filter (recent_line D cutoff) rows)"
  by (simp add: filter_lines_data keep_line_def)

lemma keep_line_no_field:
  "\<not> has_timestamp_field l \<Longrightarrow> keep_line D cutoff (Suc i) l = Inl TypeError"
  unfolding has_timestamp_field_def keep_line_def
  by (cases "split_on CHR '','' l" rule: list.exhaust [case_names Nil Cons])
     (auto split: list.splits)

lemma filter_lines_no_field:
  "\<exists>l \<in> set ls. \<not> has_timestamp_field l \<Longrightarrow> filter_lines D cutoff (Suc i) ls = Inl TypeError"
proof (induction ls arbitrary: i)
  case Nil
  then show ?case by simp
next
  case (Cons l ls)
  show ?case
  proof (cases "has_timestamp_field l")
    case True
    with Cons.prems have "\<exists>l \<in> set ls. \<not> has_timestamp_field l" by auto
    then have "filter_lines D cutoff (Suc (Suc i)) ls = Inl TypeError" by (rule Cons.IH)
    then show ?thesis by (simp add: keep_line_data True)
  next
    case False
    then show ?thesis by (simp add: keep_line_no_field)
  qed
qed

lemma cleanup_lines_aborts:
  assumes "split_on CHR 0x0A content = header # rows"
    and "\<exists>l \<in> set rows. \<not> has_timestamp_field l"
  shows "cleanup_lines D cutoff content = Inl TypeError"
  using assms(1) filter_lines_no_field [OF assms(2), of D cutoff 0]
  by (simp add: cleanup_lines_def keep_line_def)

text \<open>
  On a file in which every line after the header has a second field, the cleanup keeps
  the header line and, unchanged and in their order, exactly the lines whose timestamp
  is not empty and parses to an instant after the cutoff.
\<close>

lemma cleanup_lines_when_complete:
  assumes "split_on CHR 0x0A content = header # rows"
    and "\<forall>l \<in> set rows. has_timestamp_field l"
  shows "\<exists>text'. cleanup_lines D cutoff content = Inr text' \<and>
           split_on CHR 0x0A text' = header # filter (recent_line D cutoff) rows"
proof -
  let ?kept = "header # filter (recent_line D cutoff) rows"
  have c: "cleanup_lines D cutoff content = Inr (join_with CHR 0x0A ?kept)"
    using assms(1) filter_lines_all [OF assms(2), of D cutoff header]
    by (simp add: cleanup_lines_def del: filter_lines.simps)
  have "\<forall>l \<in> set (header # rows). CHR 0x0A \<notin> set l"
    using split_on_no_sep [of _ "CHR 0x0A" content] assms(1) by simp
  then have "\<forall>l \<in> set ?kept. CHR 0x0A \<notin> set l" by auto
  then have "split_on CHR 0x0A (join_with CHR 0x0A ?kept) = ?kept"
    by (intro split_on_join) simp_all
  with c show ?thesis by blast
qed

text \<open>The comparison with the cutoff is strict: a record at the cutoff goes.\<close>

lemma row_at_cutoff_removed:
  \<open>cleanup_lines iso_instant example_cutoff
     (''Bounced Email,Timestamp,Source Email,Source IP\<newline>'' @
      ''"a@example.com","2024-01-10T00:00:00.000Z","s@example.com","192.0.2.1"'') =
   Inr ''Bounced Email,Timestamp,Source Email,Source IP''\<close>
  by code_simp

lemma row_just_after_cutoff_kept:
  \<open>cleanup_lines iso_instant example_cutoff
     (''Bounced Email,Timestamp,Source Email,Source IP\<newline>'' @
      ''"a@example.com","2024-01-10T00:00:00.001Z","s@example.com","192.0.2.1"'') =
   Inr (''Bounced Email,Timestamp,Source Email,Source IP\<newline>'' @
      ''"a@example.com","2024-01-10T00:00:00.001Z","s@example.com","192.0.2.1"'')\<close>
  by code_simp

text \<open>
  A file that ends with a newline has an empty last line. That line has no second
  field, so the cleanup throws on it, and the job never rewrites such a file.
\<close>

lemma split_on_snoc: "split_on c (xs @ [c]) = split_on c xs @ [[]]"
proof (induction xs)
  case Nil
  then show ?case by simp
next
  case (Cons x xs)
  obtain w ws where w: "split_on c xs = w # ws"
    by (cases "split_on c xs") auto
  with Cons show ?case by simp
qed

lemma empty_line_no_field: "\<not> has_timestamp_field []"
  by (simp add: has_timestamp_field_def)

lemma cleanup_throws_on_final_newline:
  "cleanup_lines D cutoff (xs @ [CHR 0x0A]) = Inl TypeError"
proof -
  obtain header rows where s: "split_on CHR 0x0A xs = header # rows"
    by (cases "split_on CHR 0x0A xs") auto
  have sp: "split_on CHR 0x0A (xs @ [CHR 0x0A]) = header # (rows @ [[]])"
    using s by (simp add: split_on_snoc)
  have "\<exists>l \<in> set (rows @ [[]]). \<not> has_timestamp_field l"
    using empty_line_no_field by auto
  from cleanup_lines_aborts [OF sp this] show ?thesis .
qed

lemma cron_job_never_cleans_written_store:
  "snd (cron_job_lines D now (xs @ [CHR 0x0A])) = xs @ [CHR 0x0A] \<and>
   fst (cron_job_lines D now (xs @ [CHR 0x0A])) \<noteq> CleanedUp"
  by (simp add: cron_job_lines_def cleanup_throws_on_final_newline split: sum.splits)

text \<open>
  Claim C3 (the pruning removes the records at or before the horizon and keeps the rest
  and the header) at a failing input: the store as the handler wrote it, and the job at
  midnight on 16 January 2024. The record of 15 January is within the last 24 hours, so
  the job reaches the cleanup; the cleanup throws at the empty last line before it
  writes, and the record of 2 January, which is before the horizon of 9 January, is
  still in the file.
\<close>

theorem cleanup_aborts_on_written_store:
  "iso_instant ''2024-01-16T00:00:00.000Z'' = Some example_now \<and>
   iso_instant ''2024-01-02T08:00:00.000Z'' = Some 1704182400000 \<and>
   1704182400000 \<le> example_now - 604800000 \<and>
   cron_job_lines iso_instant example_now example_written_store =
     (Thrown TypeError, example_written_store)"
  by code_simp

text \<open>The store of the example is what the handler writes for the two bounces.\<close>

lemma example_written_by_handler:
  "example_written_store =
     initial_file
     @ bounce_line (Str ''b@example.com'') (Str ''2024-01-02T08:00:00.000Z'')
         (Str ''s@example.com'') (Str ''192.0.2.1'')
     @ bounce_line (Str ''a@example.com'') (Str ''2024-01-15T10:30:00.000Z'')
         (Str ''s@example.com'') (Str ''192.0.2.1'')"
  by code_simp

text \<open>
  The first version of the job does not throw on that line, but it treats the header
  like a record and removes it.
\<close>

lemma first_version_drops_header:
  "cleanup_lines_v1 iso_instant example_cutoff
     ''Bounced Email,Timestamp,Source Email,Source IP\<newline>a@example.com,2024-01-15T10:30:00.000Z,s@example.com,192.0.2.1\<newline>'' =
   ''a@example.com,2024-01-15T10:30:00.000Z,s@example.com,192.0.2.1''"
  by code_simp

text \<open>
  When the line-based cleanup completes, every line it leaves after the header has a
  timestamp that parses to an instant after the cutoff.
\<close>

lemma cleanup_lines_keeps_only_recent:
  assumes "cleanup_lines D cutoff content = Inr content'"
  shows "\<forall>l \<in> set (tl (split_on CHR 0x0A content')). recent_line D cutoff l"
proof -
  obtain header rows where s: "split_on CHR 0x0A content = header # rows"
    by (cases "split_on CHR 0x0A content") auto
  have f: "\<forall>l \<in> set rows. has_timestamp_field l"
  proof (rule ccontr)
    assume "\<not> (\<forall>l \<in> set rows. has_timestamp_field l)"
    then have "\<exists>l \<in> set rows. \<not> has_timestamp_field l" by blast
    from cleanup_lines_aborts [OF s this] assms show False by simp
  qed
  let ?kept = "header # filter (recent_line D cutoff) rows"
  have c: "content' = join_with CHR 0x0A ?kept"
    using assms s filter_lines_all [OF f, of D cutoff header]
    by (simp add: cleanup_lines_def del: filter_lines.simps)
  have "\<forall>l \<in> set (header # rows). CHR 0x0A \<notin> set l"
    using split_on_no_sep [of _ "CHR 0x0A" content] s by simp
  then have "\<forall>l \<in> set ?kept. CHR 0x0A \<notin> set l" by auto
  then have "split_on CHR 0x0A (join_with CHR 0x0A ?kept) = ?kept"
    by (intro split_on_join) simp_all
  with c show ?thesis by simp
qed

text \<open>
  \<open>cleanupOldData\<close> parses the file into records keyed by the column titles and hands
  them to a stringifier that reads the column ids. No title is an id, so every record it
  keeps is written back as nine empty cells.
\<close>

lemma parsed_record_no_id:
  "k \<notin> set h \<Longrightarrow> read_prop (Obj (rev (zip h vs))) k = Undefined"
proof -
  assume k: "k \<notin> set h"
  have "k \<notin> fst ` set (rev (zip h vs))"
    using k by (auto dest: set_zip_leftD)
  then have "map_of (rev (zip h vs)) k = None"
    by (simp add: map_of_eq_None_iff)
  then show ?thesis by simp
qed

lemma record_row_parsed:
  "record_row (Obj (rev (zip header_titles vs))) = replicate 9 []"
proof -
  have "\<forall>k \<in> set header_ids. k \<notin> set header_titles"
    by (simp add: header_ids_def header_titles_def)
  then have "\<forall>k \<in> set header_ids.
               field_stringify (read_prop (Obj (rev (zip header_titles vs))) k) = []"
    using parsed_record_no_id [of _ header_titles vs]
    by (simp add: field_stringify_def del: read_prop.simps)
  then have "record_row (Obj (rev (zip header_titles vs))) = map (\<lambda>k. []) header_ids"
    unfolding record_row_def by (intro map_cong) simp_all
  also have "\<dots> = replicate 9 []"
    by (simp add: header_ids_def numeral_eq_Suc)
  finally show ?thesis .
qed

lemma cleanup_blanks_retained_rows:
  assumes "list_all (\<lambda>r. length r = 9) (filter (\<lambda>l. l \<noteq> []) rows)"
  shows "\<exists>n. cleanupOldData D cutoff (header_titles # rows) =
           Inr (header_titles # (if n = 0 then [[]] else replicate n (replicate 9 [])))"
proof -
  let ?rows = "filter (\<lambda>l. l \<noteq> []) rows"
  let ?records = "map (\<lambda>r. Obj (rev (zip header_titles (map Str r)))) ?rows"
  let ?recent = "recentRecords D cutoff ?records"
  have h: "header_titles \<noteq> []" "length header_titles = 9"
    by (simp_all add: header_titles_def)
  have p: "csv_parse (header_titles # rows) = Inr ?records"
    using assms h by (simp add: csv_parse_def)
  have "\<forall>r \<in> set ?recent. record_row r = replicate 9 []"
    by (auto simp: recentRecords_def record_row_parsed)
  then have "map record_row ?recent = map (\<lambda>r. replicate 9 []) ?recent"
    by (intro map_cong) simp_all
  then have m: "map record_row ?recent = replicate (length ?recent) (replicate 9 [])"
    by (simp add: map_replicate_const)
  have "cleanupOldData D cutoff (header_titles # rows) =
          Inr (header_titles #
               (if length ?recent = 0 then [[]] else replicate (length ?recent) (replicate 9 [])))"
    using p m by (simp add: cleanupOldData_def getHeaderString_def stringifyRecords_def)
  then show ?thesis by blast
qed

text \<open>\<open>cleanupOldData\<close> also compares strictly: a record at the cutoff goes.\<close>

lemma record_at_cutoff_removed:
  "cleanupOldData iso_instant example_cutoff
     [header_titles,
      [''a@example.com'', ''2024-01-10T00:00:00.000Z'', ''s@example.com'', ''192.0.2.1'',
       ''Permanent'', ''General'', ''550'', ''mta.example.com'', ''0100018d'']] =
   Inr [header_titles, []]"
  by code_simp

text \<open>
  Claim C4 (the pruning is idempotent) at a failing input: a store with one record newer
  than the cutoff. The first call writes the record back as a line of empty cells; the
  second call, with the same cutoff, finds no valid timestamp in that line and removes
  it. The second call has changed the dataset.
\<close>

theorem cleanup_twice_differs:
  "cleanupOldData iso_instant example_cutoff [header_titles, example_record_row] =
     Inr [header_titles, [[], [], [], [], [], [], [], [], []]] \<and>
   cleanupOldData iso_instant example_cutoff
     [header_titles, [[], [], [], [], [], [], [], [], []]] = Inr [header_titles, []]"
  by code_simp

text \<open>
  Claim C10 (every row left by a cleanup has a parseable timestamp after the cutoff) at
  the same input: the row that the cleanup leaves has an empty timestamp, which does not
  parse, while the record it came from had a valid timestamp after the cutoff.
\<close>

theorem cleanup_leaves_unparseable_row:
  "cleanupOldData iso_instant example_cutoff [header_titles, example_record_row] =
     Inr [header_titles, [[], [], [], [], [], [], [], [], []]] \<and>
   csv_parse [header_titles, [[], [], [], [], [], [], [], [], []]] =
     Inr [Obj (rev (zip header_titles (map Str [[], [], [], [], [], [], [], [], []])))] \<and>
   new_Date iso_instant
     (read_prop (Obj (rev (zip header_titles (map Str [[], [], [], [], [], [], [], [], []]))))
        ''Timestamp'') = None \<and>
   new_Date iso_instant
     (read_prop (Obj (rev (zip header_titles (map Str example_record_row)))) ''Timestamp'') =
     Some 1705314600000"
  by code_simp

section \<open>Properties of the Message decoding\<close>

lemma parse_twice_needs_parse_once: "parse_once P msg = None \<Longrightarrow> parse_twice P msg = None"
  by (simp add: parse_once_def parse_twice_def)

lemma double_parse_never_decides:
  "parse_strategies P msg =
     (case first_success [parse_once P, parse_unescaped P] msg of
        Some c \<Rightarrow> Inr c
      | None \<Rightarrow> Inl (MalformedMessage msg))"
  by (simp add: parse_strategies_def parse_twice_needs_parse_once split: option.splits)

text \<open>
  Claim C1, as amended. No handler tries all four strategies. The handler with the nested
  \<open>try\<close> blocks tries, in this order, parsing once, parsing after stripping one layer of
  escaping and quotes, and parsing twice; the first success gives the result, and when
  all three fail it answers 400 with the raw Message. It does not accept an already
  structured Message. \<open>processSNSMessage\<close> takes an already structured Message as it is
  and otherwise parses once; when that fails it throws "Invalid Message format".
\<close>

theorem decode_strategies_by_variant:
  "parse_strategies P msg =
     (case first_success [parse_once P, parse_unescaped P, parse_twice P] msg of
        Some c \<Rightarrow> Inr c
      | None \<Rightarrow> Inl (MalformedMessage msg)) \<and>
   decode_message P msg =
     (case first_success [take_object, parse_once P] msg of
        Some c \<Rightarrow> Inr c
      | None \<Rightarrow> Inl InvalidMessageFormat)"
  by (simp add: parse_strategies_def decode_message_def take_object_def parse_once_def
           split: option.splits)

text \<open>An escaped Message is decoded by the second strategy, a structured one is taken as it is.\<close>

theorem decode_strategies_by_variant_witness:
  "parse_strategies json_parse (Str example_escaped) =
     Inr (Obj [(''notificationType'', Str ''Bounce'')]) \<and>
   decode_message json_parse (Obj [(''notificationType'', Str ''Bounce'')]) =
     Inr (Obj [(''notificationType'', Str ''Bounce'')])"
proof -
  have a: "first_success [parse_once json_parse, parse_unescaped json_parse, parse_twice json_parse]
             (Str example_escaped) = Some (Obj [(''notificationType'', Str ''Bounce'')])"
    by code_simp
  have b: "first_success [take_object, parse_once json_parse]
             (Obj [(''notificationType'', Str ''Bounce'')]) =
           Some (Obj [(''notificationType'', Str ''Bounce'')])"
    by code_simp
  show ?thesis
    using decode_strategies_by_variant [of json_parse "Str example_escaped"]
          decode_strategies_by_variant [of json_parse "Obj [(''notificationType'', Str ''Bounce'')]"]
          a b
    by simp
qed

text \<open>
  Claim C1 as stated fails in both handlers. On the escaped Message, parsing once fails
  and the stripping strategy would succeed, but \<open>processSNSMessage\<close> does not try it and
  throws. On an already structured Message the handler with the nested \<open>try\<close> blocks
  fails with 400, where the first strategy of the specification would succeed.
\<close>

theorem four_strategies_counterexample:
  "parse_once json_parse (Str example_escaped) = None \<and>
   parse_unescaped json_parse (Str example_escaped) =
     Some (Obj [(''notificationType'', Str ''Bounce'')]) \<and>
   spec_decode json_parse (Str example_escaped) =
     Inr (Obj [(''notificationType'', Str ''Bounce'')]) \<and>
   decode_message json_parse (Str example_escaped) = Inl InvalidMessageFormat \<and>
   spec_decode json_parse (Obj [(''notificationType'', Str ''Bounce'')]) =
     Inr (Obj [(''notificationType'', Str ''Bounce'')]) \<and>
   parse_strategies json_parse (Obj [(''notificationType'', Str ''Bounce'')]) =
     Inl (MalformedMessage (Obj [(''notificationType'', Str ''Bounce'')]))"
  by code_simp

lemma example_escaped_text:
  \<open>strip_quotes (unescape_quotes example_escaped) = ''{"notificationType":"Bounce"}''\<close>
  by code_simp

text \<open>
  The two texts that the counterexample needs to be rejected are rejected at their
  second character, whatever the fuel.
\<close>

lemma escaped_rejected_at_any_fuel: "parse_value n example_escaped = None"
proof (cases n)
  case 0
  then show ?thesis by simp
next
  case (Suc m)
  have "parse_members m (tl example_escaped) = None"
    by (cases m) (simp_all add: example_escaped_def skip_ws_def is_ws_def)
  then show ?thesis
    using Suc by (simp add: example_escaped_def skip_ws_def is_ws_def)
qed

lemma object_text_rejected_at_any_fuel: "parse_value n ''[object Object]'' = None"
proof (cases n)
  case 0
  then show ?thesis by simp
next
  case (Suc m)
  have v: "\<And>k. parse_value k ''object Object]'' = None"
  proof -
    fix k show "parse_value k ''object Object]'' = None"
      by (cases k)
         (simp_all add: skip_ws_def is_ws_def match_prefix_def parse_number_def is_digit_def Let_def)
  qed
  have "parse_elements m ''object Object]'' = None"
    by (cases m) (simp_all add: v)
  then show ?thesis
    using Suc by (simp add: skip_ws_def is_ws_def)
qed

section \<open>Properties of the reporter\<close>

lemma retry_loop_unfold:
  "retry_loop tr (Suc n) s =
     (let s1 = s\<lparr>calls := calls s + 1, events := events s @ [SendMail]\<rparr> in
      if tr (calls s) then (Inr (), s1)
      else if n = 0 then (Inl SendError, s1)
      else retry_loop tr n (s1\<lparr>events := events s1 @ [Wait 5000]\<rparr>))"
  by (subst retry_loop.simps) (simp add: Let_def)

lemma send_with_retry_cases:
  "send_with_retry tr =
     (if tr 0 then (Inr (), \<lparr>calls = 1, events = [SendMail]\<rparr>)
      else if tr 1 then (Inr (), \<lparr>calls = 2, events = [SendMail, Wait 5000, SendMail]\<rparr>)
      else if tr 2 then
        (Inr (), \<lparr>calls = 3, events = [SendMail, Wait 5000, SendMail, Wait 5000, SendMail]\<rparr>)
      else
        (Inl SendError, \<lparr>calls = 3, events = [SendMail, Wait 5000, SendMail, Wait 5000, SendMail]\<rparr>))"
  by (simp add: send_with_retry_def numeral_3_eq_3 retry_loop_unfold Let_def numeral_2_eq_2)

text \<open>
  Claim C5. The reporter invokes the transport at most 3 times. If the \<open>k\<close>-th invocation
  (\<open>k \<le> 3\<close>) is the first to succeed, the delivery succeeds after exactly \<open>k\<close>
  invocations, with a wait of 5000 ms after each failed one and before the next. It fails,
  with the error handed to the caller, exactly when three invocations in a row failed; the
  scheduled job then logs the error and returns.
\<close>

theorem reporter_send_retry:
  "calls (snd (send_with_retry tr)) \<le> 3 \<and>
   (\<forall>k. 1 \<le> k \<and> k \<le> 3 \<and> (\<forall>j < k - 1. \<not> tr j) \<and> tr (k - 1) \<longrightarrow>
      send_with_retry tr = (Inr (), \<lparr>calls = k, events = attempts_trace k\<rparr>)) \<and>
   ((\<forall>j < 3. \<not> tr j) \<longrightarrow>
      send_with_retry tr = (Inl SendError, \<lparr>calls = 3, events = attempts_trace 3\<rparr>)) \<and>
   (fst (send_with_retry tr) = Inl SendError \<longrightarrow> (\<forall>j < 3. \<not> tr j)) \<and>
   (fst (cron_report tr) = JobDone \<or> fst (cron_report tr) = JobLogged SendError)"
proof -
  have tr3: "attempts_trace 3 = [SendMail, Wait 5000, SendMail, Wait 5000, SendMail]"
    by (simp add: numeral_3_eq_3)
  have tr2: "attempts_trace 2 = [SendMail, Wait 5000, SendMail]"
    by (simp add: numeral_2_eq_2)
  have k: "\<And>k::nat. 1 \<le> k \<and> k \<le> 3 \<Longrightarrow> k = 1 \<or> k = 2 \<or> k = 3" by arith
  have lt3: "\<And>P. (\<forall>j<3::nat. P j) = (P 0 \<and> P 1 \<and> P 2)"
    by (auto simp: numeral_3_eq_3 less_Suc_eq numeral_2_eq_2)
  have lt2: "\<And>P. (\<forall>j<2::nat. P j) = (P 0 \<and> P 1)"
    by (auto simp: less_Suc_eq numeral_2_eq_2)
  have a: "calls (snd (send_with_retry tr)) \<le> 3"
    by (simp add: send_with_retry_cases)
  have b: "\<forall>k. 1 \<le> k \<and> k \<le> 3 \<and> (\<forall>j < k - 1. \<not> tr j) \<and> tr (k - 1) \<longrightarrow>
      send_with_retry tr = (Inr (), \<lparr>calls = k, events = attempts_trace k\<rparr>)"
  proof (intro allI impI)
    fix k assume h: "1 \<le> k \<and> k \<le> 3 \<and> (\<forall>j < k - 1. \<not> tr j) \<and> tr (k - 1)"
    then consider "k = 1" | "k = 2" | "k = 3" using k by blast
    then show "send_with_retry tr = (Inr (), \<lparr>calls = k, events = attempts_trace k\<rparr>)"
    proof cases
      case 1 with h show ?thesis by (simp add: send_with_retry_cases)
    next
      case 2 with h show ?thesis by (simp add: send_with_retry_cases tr2)
    next
      case 3 with h show ?thesis by (simp add: send_with_retry_cases tr3 lt2)
    qed
  qed
  have c: "(\<forall>j < 3. \<not> tr j) \<longrightarrow>
      send_with_retry tr = (Inl SendError, \<lparr>calls = 3, events = attempts_trace 3\<rparr>)"
    by (simp add: send_with_retry_cases tr3 lt3)
  have d: "fst (send_with_retry tr) = Inl SendError \<longrightarrow> (\<forall>j < 3. \<not> tr j)"
    by (simp add: send_with_retry_cases lt3)
  have e: "fst (cron_report tr) = JobDone \<or> fst (cron_report tr) = JobLogged SendError"
    by (simp add: cron_report_def send_with_retry_cases)
  from a b c d e show ?thesis by blast
qed

text \<open>A transport that fails twice and then succeeds; one that always fails.\<close>

theorem reporter_send_retry_witness:
  "send_with_retry (\<lambda>k. k = 2) =
     (Inr (), \<lparr>calls = 3, events = [SendMail, Wait 5000, SendMail, Wait 5000, SendMail]\<rparr>) \<and>
   send_with_retry (\<lambda>k. False) =
     (Inl SendError, \<lparr>calls = 3, events = [SendMail, Wait 5000, SendMail, Wait 5000, SendMail]\<rparr>)"
proof -
  have tr3: "attempts_trace 3 = [SendMail, Wait 5000, SendMail, Wait 5000, SendMail]"
    by (simp add: numeral_3_eq_3)
  have h: "(1::nat) \<le> 3 \<and> (3::nat) \<le> 3 \<and> (\<forall>j < 3 - 1. \<not> (\<lambda>k. k = (2::nat)) j) \<and> (\<lambda>k. k = (2::nat)) (3 - 1)"
    by simp
  have "send_with_retry (\<lambda>k. k = 2) = (Inr (), \<lparr>calls = 3, events = attempts_trace 3\<rparr>)"
    using reporter_send_retry [of "\<lambda>k. k = 2"] h by blast
  moreover have "send_with_retry (\<lambda>k. False) = (Inl SendError, \<lparr>calls = 3, events = attempts_trace 3\<rparr>)"
    using reporter_send_retry [of "\<lambda>k. False"] by simp
  ultimately show ?thesis by (simp add: tr3)
qed

end
